theory Spec2Isabelle
  imports Complex_Main "HOL-Library.Multiset"
begin

section \<open>Python values\<close>

text \<open>
  A Python \<open>str\<close> is a sequence of Unicode code points, and \<open>len\<close> counts code points.
  Strings are therefore lists of code points; \<open>U ''abc''\<close> is the string with the ASCII
  characters \<open>abc\<close>, and a non-ASCII character is written as its code point.
\<close>

type_synonym ustring = "nat list"

definition U :: "string \<Rightarrow> ustring" where
  "U s = map of_char s"

text \<open>The exceptions that the modelled code can raise.\<close>

datatype py_error = KeyError | TypeError | IndexError | AttributeError | ValueError
  | RecursionError | JSONDecodeError | StopIteration | ExternalError ustring

text \<open>
  A float is a real number or one of the three non-finite values; rounding to binary64 is
  not modelled.
\<close>

datatype pyfloat = Finite real | NaN | PosInf | NegInf

text \<open>
  The values that \<open>json.loads\<close> produces and that the turn dictionaries hold. A \<open>dict\<close>
  with string keys is an association list in insertion order, with distinct keys.
\<close>

datatype pyval = PNone | PBool bool | PInt int | PFloat pyfloat | PStr ustring
  | PList "pyval list" | PDict "(ustring \<times> pyval) list"

type_synonym pydict = "(ustring \<times> pyval) list"

definition bind_err :: "py_error + 'a \<Rightarrow> ('a \<Rightarrow> py_error + 'b) \<Rightarrow> py_error + 'b" where
  "bind_err m f = (case m of Inl e \<Rightarrow> Inl e | Inr x \<Rightarrow> f x)"

text \<open>\<open>d[k]\<close>: raises \<open>KeyError\<close> on a missing key.\<close>

definition dict_item :: "pydict \<Rightarrow> ustring \<Rightarrow> py_error + pyval" where
  "dict_item d k = (case map_of d k of None \<Rightarrow> Inl KeyError | Some v \<Rightarrow> Inr v)"

text \<open>\<open>d.get(k, default)\<close>.\<close>

definition dict_get :: "pydict \<Rightarrow> ustring \<Rightarrow> pyval \<Rightarrow> pyval" where
  "dict_get d k dflt = (case map_of d k of None \<Rightarrow> dflt | Some v \<Rightarrow> v)"

text \<open>\<open>k in d\<close>.\<close>

definition dict_contains :: "pydict \<Rightarrow> ustring \<Rightarrow> bool" where
  "dict_contains d k = (map_of d k \<noteq> None)"

text \<open>\<open>xs[i]\<close> on a list: a negative index counts from the end, out of range raises.\<close>

definition py_getitem :: "'a list \<Rightarrow> int \<Rightarrow> py_error + 'a" where
  "py_getitem xs i =
     (if 0 \<le> i \<and> i < int (length xs) then Inr (xs ! nat i)
      else if i < 0 \<and> - int (length xs) \<le> i then Inr (xs ! nat (int (length xs) + i))
      else Inl IndexError)"

text \<open>\<open>len(v)\<close>: defined on strings, lists and dicts, a \<open>TypeError\<close> on the other values.\<close>

fun py_len :: "pyval \<Rightarrow> py_error + nat" where
  "py_len (PStr s) = Inr (length s)"
| "py_len (PList xs) = Inr (length xs)"
| "py_len (PDict d) = Inr (length d)"
| "py_len _ = Inl TypeError"

text \<open>
  \<open>v <= 0\<close>: defined on numbers (\<open>bool\<close> is a subtype of \<open>int\<close>), false on NaN, a
  \<open>TypeError\<close> on the other values.
\<close>

fun py_le_zero :: "pyval \<Rightarrow> py_error + bool" where
  "py_le_zero (PInt i) = Inr (i \<le> 0)"
| "py_le_zero (PBool b) = Inr (\<not> b)"
| "py_le_zero (PFloat (Finite x)) = Inr (x \<le> 0)"
| "py_le_zero (PFloat NaN) = Inr False"
| "py_le_zero (PFloat PosInf) = Inr False"
| "py_le_zero (PFloat NegInf) = Inr True"
| "py_le_zero _ = Inl TypeError"

section \<open>Configuration (config.py)\<close>

definition TURNS_PER_DIALOG_MIN :: nat where
  "TURNS_PER_DIALOG_MIN = 6"

definition TURNS_PER_DIALOG_MAX :: nat where
  "TURNS_PER_DIALOG_MAX = 16"

definition MAX_RETRIES_PER_CONVERSATION :: nat where
  "MAX_RETRIES_PER_CONVERSATION = 3"

section \<open>The conversation validators\<close>

text \<open>
  A turn is a Python dict. The validators print a diagnostic line before each return; the
  printed text is not part of the model, the returned boolean and every exception are.
  The arguments \<open>conv_id\<close> and \<open>scenario_name\<close> are kept as the source has them.
\<close>

type_synonym turn = pydict

definition expected_role :: "nat \<Rightarrow> ustring" where
  "expected_role i = (if (i + 1) mod 2 \<noteq> 0 then U ''agent'' else U ''user'')"

text \<open>
  The \<open>for i, turn in enumerate(history)\<close> loop of \<open>validate_text_conversation\<close>, from
  index \<open>i\<close> on: \<open>Inr False\<close> when the loop returns False, \<open>Inr True\<close> when it runs to its end.
\<close>

fun text_turn_loop :: "nat \<Rightarrow> turn list \<Rightarrow> py_error + bool" where
  "text_turn_loop i [] = Inr True"
| "text_turn_loop i (turn # rest) =
     bind_err (dict_item turn (U ''role'')) (\<lambda>role.
       if role \<noteq> PStr (expected_role i) then Inr False
       else bind_err (py_len (dict_get turn (U ''transcript'') (PStr []))) (\<lambda>transcript_len.
         if transcript_len < 15 \<or> transcript_len > 300 then Inr False
         else text_turn_loop (Suc i) rest))"

text \<open>
  \<open>history[-2]['role'] != 'agent' or history[-2]['intent'] != 'closing'\<close>, evaluated left to
  right with the short circuit of \<open>or\<close>.
\<close>

definition closing_missing :: "turn list \<Rightarrow> py_error + bool" where
  "closing_missing history =
     bind_err (py_getitem history (- 2)) (\<lambda>t.
     bind_err (dict_item t (U ''role'')) (\<lambda>role.
       if role \<noteq> PStr (U ''agent'') then Inr True
       else bind_err (py_getitem history (- 2)) (\<lambda>t'.
            bind_err (dict_item t' (U ''intent'')) (\<lambda>intent.
              Inr (intent \<noteq> PStr (U ''closing''))))))"

text \<open>
  \<open>history[-1]['role'] != 'user' or history[-1]['intent'] not in ['thanks', 'confirmation']\<close>.
\<close>

definition thanks_missing :: "turn list \<Rightarrow> py_error + bool" where
  "thanks_missing history =
     bind_err (py_getitem history (- 1)) (\<lambda>t.
     bind_err (dict_item t (U ''role'')) (\<lambda>role.
       if role \<noteq> PStr (U ''user'') then Inr True
       else bind_err (py_getitem history (- 1)) (\<lambda>t'.
            bind_err (dict_item t' (U ''intent'')) (\<lambda>intent.
              Inr (intent \<notin> set [PStr (U ''thanks''), PStr (U ''confirmation'')])))))"

definition check_ending :: "turn list \<Rightarrow> py_error + bool" where
  "check_ending history =
     bind_err (closing_missing history) (\<lambda>c.
       if c then Inr False
       else bind_err (thanks_missing history) (\<lambda>t.
         if t then Inr False else Inr True))"

definition validate_text_conversation :: "turn list \<Rightarrow> int \<Rightarrow> ustring \<Rightarrow> py_error + bool" where
  "validate_text_conversation history conv_id scenario_name =
     (if \<not> (TURNS_PER_DIALOG_MIN \<le> length history \<and> length history \<le> TURNS_PER_DIALOG_MAX)
      then Inr False
      else bind_err (text_turn_loop 0 history) (\<lambda>ok.
        if \<not> ok then Inr False else check_ending history))"

text \<open>
  The audio-enabled validator also asks the file system whether each turn's audio file
  exists. The file system is the parameter \<open>path_exists\<close>: \<open>path_exists p\<close> is the answer of
  \<open>pathlib.Path(p).exists()\<close> at the time of the call. \<open>pathlib.Path(v)\<close> raises a
  \<open>TypeError\<close> when \<open>v\<close> is not a string.
\<close>

fun audio_turn_loop :: "(ustring \<Rightarrow> bool) \<Rightarrow> nat \<Rightarrow> turn list \<Rightarrow> py_error + bool" where
  "audio_turn_loop path_exists i [] = Inr True"
| "audio_turn_loop path_exists i (turn # rest) =
     bind_err (dict_item turn (U ''role'')) (\<lambda>role.
       if role \<noteq> PStr (expected_role i) then Inr False
       else (case dict_get turn (U ''audio_filepath'') (PStr []) of
           PStr audio_path \<Rightarrow>
             if \<not> path_exists audio_path then Inr False
             else bind_err
               (if \<not> dict_contains turn (U ''audio_duration'') then Inr True
                else bind_err (dict_item turn (U ''audio_duration'')) py_le_zero)
               (\<lambda>bad_duration.
                 if bad_duration then Inr False
                 else bind_err (py_len (dict_get turn (U ''transcript'') (PStr [])))
                   (\<lambda>transcript_len.
                     if transcript_len < 20 \<or> transcript_len > 200 then Inr False
                     else audio_turn_loop path_exists (Suc i) rest))
         | _ \<Rightarrow> Inl TypeError))"

definition validate_conversation_with_audio ::
  "(ustring \<Rightarrow> bool) \<Rightarrow> turn list \<Rightarrow> int \<Rightarrow> ustring \<Rightarrow> py_error + bool" where
  "validate_conversation_with_audio path_exists history conv_id scenario_name =
     (if \<not> (TURNS_PER_DIALOG_MIN \<le> length history \<and> length history \<le> TURNS_PER_DIALOG_MAX)
      then Inr False
      else bind_err (audio_turn_loop path_exists 0 history) (\<lambda>ok.
        if \<not> ok then Inr False else check_ending history))"

text \<open>The structural invariant of an accepted conversation.\<close>

definition role_of :: "turn \<Rightarrow> py_error + pyval" where
  "role_of t = dict_item t (U ''role'')"

definition intent_of :: "turn \<Rightarrow> py_error + pyval" where
  "intent_of t = dict_item t (U ''intent'')"

definition roles_alternate :: "turn list \<Rightarrow> bool" where
  "roles_alternate history =
     (\<forall>i < length history.
        role_of (history ! i) = Inr (PStr (if even i then U ''agent'' else U ''user'')))"

definition well_formed_conversation :: "turn list \<Rightarrow> bool" where
  "well_formed_conversation history =
     (roles_alternate history
      \<and> even (length history)
      \<and> TURNS_PER_DIALOG_MIN \<le> length history \<and> length history \<le> TURNS_PER_DIALOG_MAX
      \<and> role_of (history ! (length history - 2)) = Inr (PStr (U ''agent''))
      \<and> intent_of (history ! (length history - 2)) = Inr (PStr (U ''closing''))
      \<and> role_of (history ! (length history - 1)) = Inr (PStr (U ''user''))
      \<and> (intent_of (history ! (length history - 1)) = Inr (PStr (U ''thanks''))
         \<or> intent_of (history ! (length history - 1)) = Inr (PStr (U ''confirmation''))))"

text \<open>Example conversations.\<close>

definition mk_turn :: "ustring \<Rightarrow> ustring \<Rightarrow> ustring \<Rightarrow> turn" where
  "mk_turn role intent transcript =
     [(U ''conversation_id'', PInt 1), (U ''transcript'', PStr transcript),
      (U ''speaker_id'', PStr (role @ U ''_male_001'')), (U ''role'', PStr role),
      (U ''intent'', PStr intent), (U ''slot'', PDict [])]"

definition mk_audio_turn :: "ustring \<Rightarrow> ustring \<Rightarrow> ustring \<Rightarrow> ustring \<Rightarrow> turn" where
  "mk_audio_turn role intent transcript path =
     [(U ''conversation_id'', PInt 1), (U ''audio_filepath'', PStr path),
      (U ''transcript'', PStr transcript),
      (U ''speaker_id'', PStr (role @ U ''_male_001'')), (U ''role'', PStr role),
      (U ''intent'', PStr intent), (U ''slot'', PDict []),
      (U ''audio_duration'', PFloat (Finite 2)), (U ''sample_rate'', PInt 16000),
      (U ''channels'', PInt 1), (U ''file_size'', PInt 64000)]"

definition sample_text :: ustring where
  "sample_text = U ''Merhaba, size nasil yardimci olabilirim?''"

definition four_turns :: "turn list" where
  "four_turns =
     [mk_turn (U ''agent'') (U ''greeting'') sample_text,
      mk_turn (U ''user'') (U ''complaint'') sample_text,
      mk_turn (U ''agent'') (U ''closing'') sample_text,
      mk_turn (U ''user'') (U ''thanks'') sample_text]"

definition six_turns :: "turn list" where
  "six_turns =
     [mk_turn (U ''agent'') (U ''greeting'') sample_text,
      mk_turn (U ''user'') (U ''complaint'') sample_text,
      mk_turn (U ''agent'') (U ''info_request'') sample_text,
      mk_turn (U ''user'') (U ''info_provide'') sample_text,
      mk_turn (U ''agent'') (U ''closing'') sample_text,
      mk_turn (U ''user'') (U ''thanks'') sample_text]"

definition six_audio_turns :: "turn list" where
  "six_audio_turns =
     [mk_audio_turn (U ''agent'') (U ''greeting'') sample_text (U ''data/audio/agent/0001_01.wav''),
      mk_audio_turn (U ''user'') (U ''complaint'') sample_text (U ''data/audio/user/0001_02.wav''),
      mk_audio_turn (U ''agent'') (U ''info_request'') sample_text (U ''data/audio/agent/0001_03.wav''),
      mk_audio_turn (U ''user'') (U ''info_provide'') sample_text (U ''data/audio/user/0001_04.wav''),
      mk_audio_turn (U ''agent'') (U ''closing'') sample_text (U ''data/audio/agent/0001_05.wav''),
      mk_audio_turn (U ''user'') (U ''thanks'') sample_text (U ''data/audio/user/0001_06.wav'')]"


section \<open>Randomness\<close>

text \<open>
  The random generator is a stream of raw draws: \<open>g 0\<close> is the next draw and the generator
  after it is the rest of the stream. \<open>random.choice\<close> raises an \<open>IndexError\<close> on an empty
  sequence and otherwise returns one of its elements.
\<close>

type_synonym rng = "nat \<Rightarrow> nat"

definition rng_tail :: "rng \<Rightarrow> rng" where
  "rng_tail g = (\<lambda>n. g (Suc n))"

definition random_choice :: "'a list \<Rightarrow> rng \<Rightarrow> py_error + ('a \<times> rng)" where
  "random_choice xs g =
     (if xs = [] then Inl IndexError else Inr (xs ! (g 0 mod length xs), rng_tail g))"

section \<open>Gender inference and voice selection\<close>

definition endswith :: "ustring \<Rightarrow> ustring \<Rightarrow> bool" where
  "endswith s suf = (length suf \<le> length s \<and> drop (length s - length suf) s = suf)"

definition startswith :: "ustring \<Rightarrow> ustring \<Rightarrow> bool" where
  "startswith s pre = (take (length pre) s = pre)"

definition TURKISH_MALE_NAMES :: "ustring list" where
  "TURKISH_MALE_NAMES =
     [U ''Ahmet'', U ''Mehmet'', U ''Ali'', U ''Veli'',
      U ''Burak'', U ''Cem'', U ''Furkan'', U ''Hakan'',
      U ''Kemal'', U ''Murat'', U ''O'' @ [287] @ U ''uz'', U ''R'' @ [305] @ U ''za'',
      U ''Tolga'', U ''Ufuk'', U ''Volkan'', U ''Zeki'',
      U ''Emre'', U ''Serkan'', [214] @ U ''zkan'', U ''Taner'',
      U ''Selim'', U ''Berk'', U ''Kaan'', U ''Onur'',
      U ''Bar'' @ [305] @ [351], U ''Arda'', U ''Eren'', U ''Ka'' @ [287] @ U ''an'',
      U ''Alper'', U ''Sinan'', U ''G'' @ [246] @ U ''khan'', U ''Erhan'']"

definition TURKISH_FEMALE_NAMES :: "ustring list" where
  "TURKISH_FEMALE_NAMES =
     [U ''Ay'' @ [351] @ U ''e'', U ''Fatma'', U ''Zeynep'', U ''Elif'',
      U ''Deniz'', U ''Ece'', U ''G'' @ [252] @ U ''l'', [304] @ U ''rem'',
      U ''Leyla'', U ''Nalan'', U ''P'' @ [305] @ U ''nar'', U ''Seda'',
      U ''Yasemin'', U ''Asl'' @ [305], U ''Ebru'', U ''Gamze'',
      U ''H'' @ [252] @ U ''lya'', U ''I'' @ [351] @ [305] @ U ''l'', U ''Jale'', U ''K'' @ [252] @ U ''bra'',
      U ''Lale'', U ''Melike'', U ''Nazl'' @ [305], [214] @ U ''zlem'',
      U ''Pelin'', U ''Reyhan'', U ''Sibel'', U ''T'' @ [252] @ U ''lay'',
      [220] @ U ''lk'' @ [252], U ''Vildan'', U ''Yeliz'', U ''Zuhal'']"

definition AGENT_NAMES :: "ustring list" where
  "AGENT_NAMES =
     [U ''Ahmet'', U ''Mehmet'', U ''Ay'' @ [351] @ U ''e'', U ''Fatma'',
      U ''Ali'', U ''Veli'', U ''Zeynep'', U ''Elif'',
      U ''Burak'', U ''Cem'', U ''Deniz'', U ''Ece'',
      U ''Furkan'', U ''G'' @ [252] @ U ''l'', U ''Hakan'', [304] @ U ''rem'',
      U ''Kemal'', U ''Leyla'', U ''Murat'', U ''Nalan'',
      U ''O'' @ [287] @ U ''uz'', U ''P'' @ [305] @ U ''nar'', U ''R'' @ [305] @ U ''za'', U ''Seda'',
      U ''Tolga'', U ''Ufuk'', U ''Volkan'', U ''Yasemin'',
      U ''Zeki'', U ''Asl'' @ [305]]"

text \<open>\<open>name.endswith(('e', 'a', ...))\<close> with the letters s-cedilla, u-umlaut and o-umlaut.\<close>

definition female_suffixes :: "ustring list" where
  "female_suffixes = [U ''e'', U ''a'', [351], [252], [246]]"

definition get_gender_from_name :: "ustring \<Rightarrow> ustring" where
  "get_gender_from_name name =
     (if name \<in> set TURKISH_MALE_NAMES then U ''male''
      else if name \<in> set TURKISH_FEMALE_NAMES then U ''female''
      else if list_ex (endswith name) female_suffixes then U ''female''
      else U ''male'')"

definition voice_entry ::
  "ustring \<Rightarrow> ustring \<Rightarrow> ustring \<Rightarrow> ustring \<Rightarrow> ustring \<Rightarrow> ustring \<Rightarrow> pydict" where
  "voice_entry prov vid fb_prov fb_voice gen chars =
     [(U ''provider'', PStr prov), (U ''voice_id'', PStr vid),
      (U ''fallback_provider'', PStr fb_prov), (U ''fallback_voice'', PStr fb_voice),
      (U ''gender'', PStr gen), (U ''characteristics'', PStr chars)]"

definition ENHANCED_VOICE_CONFIGS :: "(ustring \<times> pydict) list" where
  "ENHANCED_VOICE_CONFIGS =
     [(U ''agent_male_001'',
       voice_entry (U ''elevenlabs'') (U ''pNInz6obpgDQGcFmaJgB'')
         (U ''elevenlabs'') (U ''pNInz6obpgDQGcFmaJgB'')
         (U ''male'') (U ''professional male, calm, helpful'')),
      (U ''agent_male_002'',
       voice_entry (U ''elevenlabs'') (U ''ErXwobaYiN019PkySvjV'')
         (U ''elevenlabs'') (U ''ErXwobaYiN019PkySvjV'')
         (U ''male'') (U ''professional male, clear, authoritative'')),
      (U ''agent_male_003'',
       voice_entry (U ''elevenlabs'') (U ''VR6AewLTigWG4xSOukaG'')
         (U ''elevenlabs'') (U ''VR6AewLTigWG4xSOukaG'')
         (U ''male'') (U ''professional male, confident, mature'')),
      (U ''agent_female_001'',
       voice_entry (U ''elevenlabs'') (U ''EXAVITQu4vr4xnSDxMaL'')
         (U ''elevenlabs'') (U ''EXAVITQu4vr4xnSDxMaL'')
         (U ''female'') (U ''professional female, warm, confident'')),
      (U ''agent_female_002'',
       voice_entry (U ''elevenlabs'') (U ''pMsXgVXv3BLzUgSXRplE'')
         (U ''elevenlabs'') (U ''pMsXgVXv3BLzUgSXRplE'')
         (U ''female'') (U ''professional female, authoritative, clear'')),
      (U ''agent_female_003'',
       voice_entry (U ''elevenlabs'') (U ''ThT5KcBeYPX3keUQqHPh'')
         (U ''elevenlabs'') (U ''ThT5KcBeYPX3keUQqHPh'')
         (U ''female'') (U ''professional female, energetic, helpful'')),
      (U ''user_male_001'',
       voice_entry (U ''elevenlabs'') (U ''flq6f7yk4E4fJM5XTYuZ'')
         (U ''elevenlabs'') (U ''flq6f7yk4E4fJM5XTYuZ'')
         (U ''male'') (U ''natural male, casual, friendly'')),
      (U ''user_male_002'',
       voice_entry (U ''elevenlabs'') (U ''pNInz6obpgDQGcFmaJgB'')
         (U ''elevenlabs'') (U ''pNInz6obpgDQGcFmaJgB'')
         (U ''male'') (U ''natural male, concerned, mature'')),
      (U ''user_male_003'',
       voice_entry (U ''elevenlabs'') (U ''ErXwobaYiN019PkySvjV'')
         (U ''elevenlabs'') (U ''ErXwobaYiN019PkySvjV'')
         (U ''male'') (U ''natural male, patient, elderly'')),
      (U ''user_female_001'',
       voice_entry (U ''elevenlabs'') (U ''21m00Tcm4TlvDq8ikWAM'')
         (U ''elevenlabs'') (U ''21m00Tcm4TlvDq8ikWAM'')
         (U ''female'') (U ''natural female, slightly concerned'')),
      (U ''user_female_002'',
       voice_entry (U ''elevenlabs'') (U ''EXAVITQu4vr4xnSDxMaL'')
         (U ''elevenlabs'') (U ''EXAVITQu4vr4xnSDxMaL'')
         (U ''female'') (U ''natural female, patient, mature'')),
      (U ''user_female_003'',
       voice_entry (U ''elevenlabs'') (U ''ThT5KcBeYPX3keUQqHPh'')
         (U ''elevenlabs'') (U ''ThT5KcBeYPX3keUQqHPh'')
         (U ''female'') (U ''natural female, energetic, young''))]"

definition voices_with_prefix :: "ustring \<Rightarrow> ustring list" where
  "voices_with_prefix pre = filter (\<lambda>k. startswith k pre) (map fst ENHANCED_VOICE_CONFIGS)"

definition get_voice_for_agent :: "ustring \<Rightarrow> rng \<Rightarrow> py_error + (ustring \<times> rng)" where
  "get_voice_for_agent agent_name g =
     (if get_gender_from_name agent_name = U ''male''
      then random_choice (voices_with_prefix (U ''agent_male_'')) g
      else random_choice (voices_with_prefix (U ''agent_female_'')) g)"

definition get_voice_for_user :: "ustring option \<Rightarrow> rng \<Rightarrow> py_error + (ustring \<times> rng)" where
  "get_voice_for_user gender_preference g =
     bind_err
       (case gender_preference of
          None \<Rightarrow> random_choice [U ''male'', U ''female''] g
        | Some p \<Rightarrow> Inr (p, g))
       (\<lambda>(pref, g').
          if pref = U ''male'' then random_choice (voices_with_prefix (U ''user_male_'')) g'
          else random_choice (voices_with_prefix (U ''user_female_'')) g')"

section \<open>Speaker management\<close>

text \<open>
  The two dictionaries of a speaker manager. \<open>SpeakerManager\<close> (main generator) and
  \<open>TextOnlySpeakerManager\<close> have the same fields.
\<close>

record speaker_manager =
  conversation_speakers :: "int \<rightharpoonup> ustring \<times> ustring"
  conversation_agent_names :: "int \<rightharpoonup> ustring"

definition new_speaker_manager :: speaker_manager where
  "new_speaker_manager =
     \<lparr>conversation_speakers = Map.empty, conversation_agent_names = Map.empty\<rparr>"

definition remember_speakers ::
  "speaker_manager \<Rightarrow> int \<Rightarrow> ustring \<times> ustring \<Rightarrow> ustring \<Rightarrow> speaker_manager" where
  "remember_speakers sm conversation_id pair agent_name =
     sm\<lparr>conversation_speakers := (conversation_speakers sm)(conversation_id \<mapsto> pair),
        conversation_agent_names := (conversation_agent_names sm)(conversation_id \<mapsto> agent_name)\<rparr>"

text \<open>\<open>ENHANCED_VOICE_CONFIGS[voice]["gender"]\<close>, read for the log line.\<close>

definition config_gender :: "ustring \<Rightarrow> py_error + pyval" where
  "config_gender voice =
     (case map_of ENHANCED_VOICE_CONFIGS voice of
        None \<Rightarrow> Inl KeyError
      | Some c \<Rightarrow> dict_item c (U ''gender''))"

type_synonym assign_result = "py_error + ((ustring \<times> ustring) \<times> speaker_manager \<times> rng)"

definition assign_speakers :: "speaker_manager \<Rightarrow> int \<Rightarrow> ustring \<Rightarrow> rng \<Rightarrow> assign_result" where
  "assign_speakers sm conversation_id agent_name g =
     (case conversation_speakers sm conversation_id of
        Some pair \<Rightarrow> Inr (pair, sm, g)
      | None \<Rightarrow>
          bind_err (get_voice_for_agent agent_name g) (\<lambda>(agent_voice, g1).
          bind_err (get_voice_for_user None g1) (\<lambda>(user_voice, g2).
          bind_err (config_gender agent_voice) (\<lambda>agent_gender.
          bind_err (config_gender user_voice) (\<lambda>user_gender.
            Inr ((agent_voice, user_voice),
                 remember_speakers sm conversation_id (agent_voice, user_voice) agent_name,
                 g2))))))"

definition get_speaker_id ::
  "speaker_manager \<Rightarrow> int \<Rightarrow> ustring \<Rightarrow> ustring option \<Rightarrow> rng
   \<Rightarrow> py_error + (ustring \<times> speaker_manager \<times> rng)" where
  "get_speaker_id sm conversation_id role agent_name g =
     (let name = (case agent_name of
                    None \<Rightarrow> (case conversation_agent_names sm conversation_id of
                               None \<Rightarrow> U ''Ahmet'' | Some n \<Rightarrow> n)
                  | Some n \<Rightarrow> n)
      in bind_err (assign_speakers sm conversation_id name g)
           (\<lambda>((agent_voice, user_voice), sm', g').
              Inr (if role = U ''agent'' then agent_voice else user_voice, sm', g')))"

text \<open>The format specification \<open>0wd\<close> of an f-string: sign-aware zero padding to width w.\<close>

fun decimal_digits :: "nat \<Rightarrow> ustring" where
  "decimal_digits n =
     (if n < 10 then [48 + n] else decimal_digits (n div 10) @ [48 + n mod 10])"

definition zero_pad :: "nat \<Rightarrow> ustring \<Rightarrow> ustring" where
  "zero_pad w ds = replicate (w - length ds) 48 @ ds"

definition format_0d :: "nat \<Rightarrow> int \<Rightarrow> ustring" where
  "format_0d w i =
     (if i < 0 then 45 # zero_pad (w - 1) (decimal_digits (nat (- i)))
      else zero_pad w (decimal_digits (nat i)))"

definition get_speaker_id_for_text ::
  "ustring \<Rightarrow> ustring \<Rightarrow> int \<Rightarrow> rng \<Rightarrow> py_error + (ustring \<times> rng)" where
  "get_speaker_id_for_text agent_name role conversation_id g =
     (if role = U ''agent''
      then Inr (U ''agent_'' @ get_gender_from_name agent_name @ U ''_''
                @ format_0d 3 conversation_id, g)
      else bind_err (random_choice [U ''male'', U ''female''] g) (\<lambda>(gender, g').
             Inr (U ''user_'' @ gender @ U ''_'' @ format_0d 3 conversation_id, g')))"

definition text_assign_speakers ::
  "speaker_manager \<Rightarrow> int \<Rightarrow> ustring \<Rightarrow> rng \<Rightarrow> assign_result" where
  "text_assign_speakers sm conversation_id agent_name g =
     (case conversation_speakers sm conversation_id of
        Some pair \<Rightarrow> Inr (pair, sm, g)
      | None \<Rightarrow>
          bind_err (get_speaker_id_for_text agent_name (U ''agent'') conversation_id g)
            (\<lambda>(agent_speaker, g1).
          bind_err (get_speaker_id_for_text agent_name (U ''user'') conversation_id g1)
            (\<lambda>(user_speaker, g2).
            Inr ((agent_speaker, user_speaker),
                 remember_speakers sm conversation_id (agent_speaker, user_speaker) agent_name,
                 g2))))"

definition text_get_speaker_id ::
  "speaker_manager \<Rightarrow> int \<Rightarrow> ustring \<Rightarrow> ustring option \<Rightarrow> rng
   \<Rightarrow> py_error + (ustring \<times> speaker_manager \<times> rng)" where
  "text_get_speaker_id sm conversation_id role agent_name g =
     (let name = (case agent_name of
                    None \<Rightarrow> (case conversation_agent_names sm conversation_id of
                               None \<Rightarrow> U ''Ahmet'' | Some n \<Rightarrow> n)
                  | Some n \<Rightarrow> n)
      in bind_err (text_assign_speakers sm conversation_id name g)
           (\<lambda>((agent_speaker, user_speaker), sm', g').
              Inr (if role = U ''agent'' then agent_speaker else user_speaker, sm', g')))"

text \<open>
  A sequence of further calls of a speaker-binding operation, each with its own id and
  persona name, threading the manager and the generator.
\<close>

fun bind_many ::
  "(speaker_manager \<Rightarrow> int \<Rightarrow> ustring \<Rightarrow> rng \<Rightarrow> assign_result)
   \<Rightarrow> speaker_manager \<Rightarrow> (int \<times> ustring) list \<Rightarrow> rng
   \<Rightarrow> py_error + (speaker_manager \<times> rng)" where
  "bind_many assign sm [] g = Inr (sm, g)"
| "bind_many assign sm ((c, n) # calls) g =
     bind_err (assign sm c n g) (\<lambda>(p, sm', g'). bind_many assign sm' calls g')"

text \<open>
  Referential stability of a binding operation: once a call for an id has returned a pair,
  every later call for that id, after any further calls and with any persona name and
  generator, returns that pair and changes nothing.
\<close>

definition referentially_stable ::
  "(speaker_manager \<Rightarrow> int \<Rightarrow> ustring \<Rightarrow> rng \<Rightarrow> assign_result) \<Rightarrow> bool" where
  "referentially_stable assign =
     (\<forall>sm c n g p sm1 g1 calls ga sm2 g2 n' g'.
        assign sm c n g = Inr (p, sm1, g1) \<longrightarrow>
        bind_many assign sm1 calls ga = Inr (sm2, g2) \<longrightarrow>
        assign sm2 c n' g' = Inr (p, sm2, g'))"

text \<open>An example run of a binding operation, for a concrete check of stability.\<close>

definition later_calls :: "(int \<times> ustring) list" where
  "later_calls = [(8, U ''Ay'' @ [351] @ U ''e''), (7, U ''Elif''), (9, U ''Kemal'')]"

definition stable_at ::
  "(speaker_manager \<Rightarrow> int \<Rightarrow> ustring \<Rightarrow> rng \<Rightarrow> assign_result) \<Rightarrow> ustring \<times> ustring \<Rightarrow> bool" where
  "stable_at assign pair =
     (case assign new_speaker_manager 7 (U ''Ahmet'') (\<lambda>n. n) of
        Inl e \<Rightarrow> False
      | Inr (p, sm1, g1) \<Rightarrow>
          (case bind_many assign sm1 later_calls g1 of
             Inl e \<Rightarrow> False
           | Inr (sm2, g2) \<Rightarrow>
               p = pair \<and> assign sm2 7 (U ''Zeynep'') g2 = Inr (pair, sm2, g2)))"


section \<open>The validators with their effects\<close>

text \<open>
  Each validator prints one diagnostic line immediately before it returns, and the
  audio-enabled validator queries the file system for every turn. Both effects can fail:
  \<open>print\<close> raises when the standard output is closed or cannot encode the line, and
  \<open>Path.exists()\<close> raises an \<open>OSError\<close> for some paths. The state outside the program is
  the record \<open>world\<close>: \<open>print_outcome w d\<close> is \<open>None\<close> when printing the line \<open>d\<close> succeeds
  and \<open>Some e\<close> when it raises \<open>e\<close>; \<open>exists_outcome w p\<close> is the answer or the exception of
  \<open>pathlib.Path(p).exists()\<close>. A diagnostic line is given by its kind and the values
  formatted into it.
\<close>

datatype diagnostic =
    TurnCountOutOfRange int nat
  | WrongRole int nat pyval
  | TranscriptLengthInvalid int nat nat
  | AudioFileMissing int nat ustring
  | AudioDurationInvalid int nat
  | MissingAgentClosing int
  | MissingUserThanks int
  | TextValidationPassed int
  | AudioValidationPassed int

record world =
  print_outcome :: "diagnostic \<Rightarrow> py_error option"
  exists_outcome :: "ustring \<Rightarrow> py_error + bool"

text \<open>\<open>print(...)\<close> followed by \<open>return result\<close>.\<close>

definition print_and_return :: "world \<Rightarrow> diagnostic \<Rightarrow> bool \<Rightarrow> py_error + bool" where
  "print_and_return w d result =
     (case print_outcome w d of Some e \<Rightarrow> Inl e | None \<Rightarrow> Inr result)"

fun text_turn_loop_io :: "world \<Rightarrow> int \<Rightarrow> nat \<Rightarrow> turn list \<Rightarrow> py_error + bool" where
  "text_turn_loop_io w conv_id i [] = Inr True"
| "text_turn_loop_io w conv_id i (turn # rest) =
     bind_err (dict_item turn (U ''role'')) (\<lambda>role.
       if role \<noteq> PStr (expected_role i)
       then print_and_return w (WrongRole conv_id (i + 1) role) False
       else bind_err (py_len (dict_get turn (U ''transcript'') (PStr []))) (\<lambda>transcript_len.
         if transcript_len < 15 \<or> transcript_len > 300
         then print_and_return w (TranscriptLengthInvalid conv_id (i + 1) transcript_len) False
         else text_turn_loop_io w conv_id (Suc i) rest))"

definition check_ending_io :: "world \<Rightarrow> int \<Rightarrow> diagnostic \<Rightarrow> turn list \<Rightarrow> py_error + bool" where
  "check_ending_io w conv_id passed history =
     bind_err (closing_missing history) (\<lambda>c.
       if c then print_and_return w (MissingAgentClosing conv_id) False
       else bind_err (thanks_missing history) (\<lambda>t.
         if t then print_and_return w (MissingUserThanks conv_id) False
         else print_and_return w passed True))"

definition validate_text_conversation_io ::
  "world \<Rightarrow> turn list \<Rightarrow> int \<Rightarrow> ustring \<Rightarrow> py_error + bool" where
  "validate_text_conversation_io w history conv_id scenario_name =
     (if \<not> (TURNS_PER_DIALOG_MIN \<le> length history \<and> length history \<le> TURNS_PER_DIALOG_MAX)
      then print_and_return w (TurnCountOutOfRange conv_id (length history)) False
      else bind_err (text_turn_loop_io w conv_id 0 history) (\<lambda>ok.
        if \<not> ok then Inr False
        else check_ending_io w conv_id (TextValidationPassed conv_id) history))"

fun audio_turn_loop_io :: "world \<Rightarrow> int \<Rightarrow> nat \<Rightarrow> turn list \<Rightarrow> py_error + bool" where
  "audio_turn_loop_io w conv_id i [] = Inr True"
| "audio_turn_loop_io w conv_id i (turn # rest) =
     bind_err (dict_item turn (U ''role'')) (\<lambda>role.
       if role \<noteq> PStr (expected_role i)
       then print_and_return w (WrongRole conv_id (i + 1) role) False
       else (case dict_get turn (U ''audio_filepath'') (PStr []) of
           PStr audio_path \<Rightarrow>
             bind_err (exists_outcome w audio_path) (\<lambda>found.
               if \<not> found
               then print_and_return w (AudioFileMissing conv_id (i + 1) audio_path) False
               else bind_err
                 (if \<not> dict_contains turn (U ''audio_duration'') then Inr True
                  else bind_err (dict_item turn (U ''audio_duration'')) py_le_zero)
                 (\<lambda>bad_duration.
                   if bad_duration
                   then print_and_return w (AudioDurationInvalid conv_id (i + 1)) False
                   else bind_err (py_len (dict_get turn (U ''transcript'') (PStr [])))
                     (\<lambda>transcript_len.
                       if transcript_len < 20 \<or> transcript_len > 200
                       then print_and_return w
                              (TranscriptLengthInvalid conv_id (i + 1) transcript_len) False
                       else audio_turn_loop_io w conv_id (Suc i) rest)))
         | _ \<Rightarrow> Inl TypeError))"

definition validate_conversation_with_audio_io ::
  "world \<Rightarrow> turn list \<Rightarrow> int \<Rightarrow> ustring \<Rightarrow> py_error + bool" where
  "validate_conversation_with_audio_io w history conv_id scenario_name =
     (if \<not> (TURNS_PER_DIALOG_MIN \<le> length history \<and> length history \<le> TURNS_PER_DIALOG_MAX)
      then print_and_return w (TurnCountOutOfRange conv_id (length history)) False
      else bind_err (audio_turn_loop_io w conv_id 0 history) (\<lambda>ok.
        if \<not> ok then Inr False
        else check_ending_io w conv_id (AudioValidationPassed conv_id) history))"

text \<open>
  Two states of the world agree on the audio files of a history when the file system
  gives the same answer, or raises the same exception, for the audio path of every turn.
\<close>

definition same_audio_files :: "world \<Rightarrow> world \<Rightarrow> turn list \<Rightarrow> bool" where
  "same_audio_files w1 w2 history =
     (\<forall>t \<in> set history. \<forall>p. dict_get t (U ''audio_filepath'') (PStr []) = PStr p
        \<longrightarrow> exists_outcome w1 p = exists_outcome w2 p)"

text \<open>Example states of the world.\<close>

definition quiet_world :: world where
  "quiet_world = \<lparr>print_outcome = (\<lambda>d. None), exists_outcome = (\<lambda>p. Inr True)\<rparr>"

definition closed_stdout_world :: world where
  "closed_stdout_world =
     \<lparr>print_outcome = (\<lambda>d. Some (ExternalError (U ''BrokenPipeError''))),
      exists_outcome = (\<lambda>p. Inr True)\<rparr>"

definition selective_world :: world where
  "selective_world =
     \<lparr>print_outcome = (\<lambda>d. case d of TurnCountOutOfRange c n \<Rightarrow> Some (ExternalError (U ''BrokenPipeError''))
                             | _ \<Rightarrow> None),
      exists_outcome = (\<lambda>p. if p = [] then Inl (ExternalError (U ''OSError'')) else Inr True)\<rparr>"

text \<open>The files that exist in a state of the world.\<close>

definition files_of :: "world \<Rightarrow> ustring \<Rightarrow> bool" where
  "files_of w p = (exists_outcome w p = Inr True)"


section \<open>Regular-expression searches of \<open>clean_and_parse_json\<close>\<close>

text \<open>
  The characters matched by \<open>\s\<close> in a Python 3 string pattern, which are the characters
  that \<open>str.strip()\<close> removes: the Unicode white space.
\<close>

definition py_isspace :: "nat \<Rightarrow> bool" where
  "py_isspace c =
     (c \<in> set [9, 10, 11, 12, 13, 28, 29, 30, 31, 32, 133, 160, 5760, 8232, 8233, 8239, 8287,
                12288]
      \<or> (8192 \<le> c \<and> c \<le> 8202))"

text \<open>\<open>sub in s\<close> on strings.\<close>

fun contains :: "ustring \<Rightarrow> ustring \<Rightarrow> bool" where
  "contains sub [] = (sub = [])"
| "contains sub (c # cs) = (take (length sub) (c # cs) = sub \<or> contains sub cs)"

text \<open>
  A match object: the whole match and the capture groups. \<open>m.group(i)\<close> raises an
  \<open>IndexError\<close> ("no such group") when the pattern has fewer than \<open>i\<close> groups.
\<close>

record re_match =
  group0 :: ustring
  groups :: "ustring list"

definition match_group :: "re_match \<Rightarrow> nat \<Rightarrow> py_error + ustring" where
  "match_group m i =
     (if i = 0 then Inr (group0 m)
      else if i \<le> length (groups m) then Inr (groups m ! (i - 1))
      else Inl IndexError)"

text \<open>
  The pattern \<open>```json\s*(\{.*?\})\s*```\<close> with \<open>re.DOTALL\<close>. After the opening brace the
  lazy \<open>.*?\<close> stops at the first closing brace that is followed, after white space, by
  the closing fence. \<open>lazy_body acc s\<close> is that search: \<open>acc\<close> is what \<open>.*?\<close> has consumed,
  the result is the text up to and including the closing brace and the text after the
  closing fence.
\<close>

definition fence :: ustring where
  "fence = U ''```''"

fun lazy_body :: "ustring \<Rightarrow> ustring \<Rightarrow> (ustring \<times> ustring) option" where
  "lazy_body acc [] = None"
| "lazy_body acc (c # cs) =
     (if c = 125 \<and> take 3 (dropWhile py_isspace cs) = fence
      then Some (acc @ [c], drop 3 (dropWhile py_isspace cs))
      else lazy_body (acc @ [c]) cs)"

text \<open>The pattern matched at the very start of \<open>s\<close>.\<close>

definition match_fenced_here :: "ustring \<Rightarrow> re_match option" where
  "match_fenced_here s =
     (if take 7 s = U ''```json'' then
        (case dropWhile py_isspace (drop 7 s) of
           [] \<Rightarrow> None
         | c # cs \<Rightarrow>
             if c = 123 then
               (case lazy_body [] cs of
                  None \<Rightarrow> None
                | Some (body, rest) \<Rightarrow>
                    Some \<lparr>group0 = take (length s - length rest) s, groups = [123 # body]\<rparr>)
             else None)
      else None)"

text \<open>\<open>re.search\<close>: the match at the leftmost position that has one.\<close>

fun search_fenced :: "ustring \<Rightarrow> re_match option" where
  "search_fenced [] = None"
| "search_fenced (c # cs) =
     (case match_fenced_here (c # cs) of
        Some m \<Rightarrow> Some m
      | None \<Rightarrow> search_fenced cs)"

text \<open>
  The pattern \<open>\{.*\}\<close> with \<open>re.DOTALL\<close>: the greedy \<open>.*\<close> runs from the first opening brace
  to the last closing brace of the text. The pattern has no capture group.
\<close>

definition search_braces :: "ustring \<Rightarrow> re_match option" where
  "search_braces s =
     (let from_open = dropWhile (\<lambda>c. c \<noteq> 123) s
      in if 125 \<in> set from_open
         then Some \<lparr>group0 = rev (dropWhile (\<lambda>c. c \<noteq> 125) (rev from_open)), groups = []\<rparr>
         else None)"

section \<open>JSON decoding (\<open>json.loads\<close>)\<close>

text \<open>
  The decoder of the Python standard library with its default settings. Two limits of the
  interpreter are parameters: the number of nested containers that can be entered before a
  \<open>RecursionError\<close>, and the number of digits of an integer literal above which the
  conversion raises a \<open>ValueError\<close> (\<open>None\<close>: no limit).
\<close>

record py_limits =
  max_depth :: nat
  max_int_digits :: "nat option"


type_synonym scan_result = "py_error + (pyval \<times> ustring)"

definition json_ws :: "nat \<Rightarrow> bool" where
  "json_ws c = (c = 32 \<or> c = 9 \<or> c = 10 \<or> c = 13)"

definition skip_ws :: "ustring \<Rightarrow> ustring" where
  "skip_ws s = dropWhile json_ws s"

definition is_digit :: "nat \<Rightarrow> bool" where
  "is_digit c = (48 \<le> c \<and> c \<le> 57)"

definition digits_value :: "ustring \<Rightarrow> nat" where
  "digits_value ds = foldl (\<lambda>a d. 10 * a + (d - 48)) 0 ds"

definition hex_value :: "nat \<Rightarrow> nat option" where
  "hex_value c =
     (if 48 \<le> c \<and> c \<le> 57 then Some (c - 48)
      else if 97 \<le> c \<and> c \<le> 102 then Some (c - 87)
      else if 65 \<le> c \<and> c \<le> 70 then Some (c - 55)
      else None)"

definition decode_hex4 :: "ustring \<Rightarrow> nat option" where
  "decode_hex4 s =
     (case map hex_value (take 4 s) of
        [Some a, Some b, Some c, Some d] \<Rightarrow> Some (((a * 16 + b) * 16 + c) * 16 + d)
      | _ \<Rightarrow> None)"

text \<open>The character of a backslash escape other than \<open>\u\<close>.\<close>

definition backslash :: "nat \<Rightarrow> nat option" where
  "backslash e =
     (if e = 34 then Some 34 else if e = 92 then Some 92 else if e = 47 then Some 47
      else if e = 98 then Some 8 else if e = 102 then Some 12 else if e = 110 then Some 10
      else if e = 114 then Some 13 else if e = 116 then Some 9 else None)"

text \<open>
  \<open>scanstring\<close>, from the character after the opening quote: the decoded string and the
  text after the closing quote. A control character, an unknown escape, a malformed
  \<open>\uXXXX\<close> and a missing closing quote are decoding errors. A high surrogate followed by
  an escaped low surrogate is one character.
\<close>

fun scanstring :: "ustring \<Rightarrow> ustring \<Rightarrow> py_error + (ustring \<times> ustring)" where
  "scanstring acc [] = Inl JSONDecodeError"
| "scanstring acc (c # cs) =
     (if c = 34 then Inr (acc, cs)
      else if c = 92 then
        (case cs of
           [] \<Rightarrow> Inl JSONDecodeError
         | e # es \<Rightarrow>
             if e = 117 then
               (case decode_hex4 es of
                  None \<Rightarrow> Inl JSONDecodeError
                | Some u \<Rightarrow>
                    if 55296 \<le> u \<and> u \<le> 56319 \<and> take 2 (drop 4 es) = [92, 117] then
                      (case decode_hex4 (drop 6 es) of
                         None \<Rightarrow> Inl JSONDecodeError
                       | Some u2 \<Rightarrow>
                           if 56320 \<le> u2 \<and> u2 \<le> 57343
                           then scanstring
                                  (acc @ [65536 + ((u - 55296) * 1024 + (u2 - 56320))])
                                  (drop 10 es)
                           else scanstring (acc @ [u]) (drop 4 es))
                    else scanstring (acc @ [u]) (drop 4 es))
             else (case backslash e of
                     None \<Rightarrow> Inl JSONDecodeError
                   | Some ch \<Rightarrow> scanstring (acc @ [ch]) es))
      else if c \<le> 31 then Inl JSONDecodeError
      else scanstring (acc @ [c]) cs)"

text \<open>
  Numbers: \<open>-?(0|[1-9][0-9]*)(\.[0-9]+)?([eE][-+]?[0-9]+)?\<close>, an \<open>int\<close> when there is neither a
  fraction nor an exponent and a \<open>float\<close> otherwise.
\<close>

definition match_int_part :: "ustring \<Rightarrow> (ustring \<times> ustring) option" where
  "match_int_part s =
     (case s of
        [] \<Rightarrow> None
      | c # cs \<Rightarrow>
          if c = 48 then Some ([c], cs)
          else if 49 \<le> c \<and> c \<le> 57 then Some (c # takeWhile is_digit cs, dropWhile is_digit cs)
          else None)"

definition match_frac :: "ustring \<Rightarrow> (ustring \<times> ustring) option" where
  "match_frac s =
     (case s of
        dot # d # r \<Rightarrow>
          if dot = 46 \<and> is_digit d then Some (d # takeWhile is_digit r, dropWhile is_digit r)
          else None
      | _ \<Rightarrow> None)"

definition match_exp :: "ustring \<Rightarrow> (int \<times> ustring) option" where
  "match_exp s =
     (case s of
        [] \<Rightarrow> None
      | e # r \<Rightarrow>
          if e = 101 \<or> e = 69 then
            (let neg = (r \<noteq> [] \<and> hd r = 45);
                 r1 = (if r \<noteq> [] \<and> (hd r = 45 \<or> hd r = 43) then tl r else r)
             in if takeWhile is_digit r1 = [] then None
                else Some ((if neg then - 1 else 1) * int (digits_value (takeWhile is_digit r1)),
                           dropWhile is_digit r1))
          else None)"

text \<open>
  The float of a decimal literal. A magnitude of at least \<open>2^1024 - 2^970\<close> rounds to
  infinity; below it the exact decimal value stands for the nearest binary64 number.
\<close>

definition decimal_value :: "bool \<Rightarrow> ustring \<Rightarrow> ustring \<Rightarrow> int \<Rightarrow> pyfloat" where
  "decimal_value neg ip fp ex =
     (let m = real (digits_value (ip @ fp)); k = ex - int (length fp);
          v = (if 0 \<le> k then m * 10 ^ nat k else m / 10 ^ nat (- k))
      in if 2 ^ 1024 - 2 ^ 970 \<le> v then (if neg then NegInf else PosInf)
         else Finite (if neg then - v else v))"

definition too_many_digits :: "py_limits \<Rightarrow> ustring \<Rightarrow> bool" where
  "too_many_digits lims ds =
     (case max_int_digits lims of None \<Rightarrow> False | Some m \<Rightarrow> m < length ds)"

definition match_number :: "py_limits \<Rightarrow> ustring \<Rightarrow> scan_result option" where
  "match_number lims s =
     (let neg = (s \<noteq> [] \<and> hd s = 45); s1 = (if neg then tl s else s)
      in case match_int_part s1 of
           None \<Rightarrow> None
         | Some (ip, r1) \<Rightarrow>
             (let (fp, r2) = (case match_frac r1 of None \<Rightarrow> ([], r1) | Some (f, r) \<Rightarrow> (f, r))
              in case match_exp r2 of
                   Some (ex, r3) \<Rightarrow> Some (Inr (PFloat (decimal_value neg ip fp ex), r3))
                 | None \<Rightarrow>
                     if fp \<noteq> [] then Some (Inr (PFloat (decimal_value neg ip fp 0), r2))
                     else if too_many_digits lims ip then Some (Inl ValueError)
                     else Some (Inr (PInt (if neg then - int (digits_value ip)
                                           else int (digits_value ip)), r2))))"

text \<open>The constants and the numbers; anything else stops the scan.\<close>

definition scan_atom :: "py_limits \<Rightarrow> ustring \<Rightarrow> scan_result" where
  "scan_atom lims s =
     (if take 4 s = U ''null'' then Inr (PNone, drop 4 s)
      else if take 4 s = U ''true'' then Inr (PBool True, drop 4 s)
      else if take 5 s = U ''false'' then Inr (PBool False, drop 5 s)
      else if take 3 s = U ''NaN'' then Inr (PFloat NaN, drop 3 s)
      else if take 8 s = U ''Infinity'' then Inr (PFloat PosInf, drop 8 s)
      else if take 9 s = U ''-Infinity'' then Inr (PFloat NegInf, drop 9 s)
      else (case match_number lims s of None \<Rightarrow> Inl StopIteration | Some r \<Rightarrow> r))"

text \<open>\<open>d[k] = v\<close>: a repeated key keeps its position and takes the new value.\<close>

fun dict_set :: "pydict \<Rightarrow> ustring \<Rightarrow> pyval \<Rightarrow> pydict" where
  "dict_set [] k v = [(k, v)]"
| "dict_set ((k', v') # d) k v = (if k' = k then (k, v) # d else (k', v') # dict_set d k v)"

lemma length_skip_ws: "length (skip_ws s) \<le> length s"
  by (simp add: skip_ws_def length_dropWhile_le)

lemma skip_ws_Cons_shorter: "skip_ws s = c # r \<Longrightarrow> length r < length s"
  using length_skip_ws[of s] by simp

lemma scanstring_shorter: "scanstring acc s = Inr (k, r) \<Longrightarrow> length r < length s"
proof (induction s arbitrary: acc rule: length_induct)
  case (1 s)
  then have ih: "\<And>t a. length t < length s \<Longrightarrow> scanstring a t = Inr (k, r)
                  \<Longrightarrow> length r < length t"
    by blast
  show ?case
  proof (cases s)
    case Nil
    with "1.prems" show ?thesis by simp
  next
    case (Cons c cs)
    have sub: "length r < Suc (length cs)"
      if "scanstring a t = Inr (k, r)" and "length t \<le> length cs" for t a
    proof -
      from that(2) Cons have "length t < length s" by simp
      from ih[OF this that(1)] that(2) show ?thesis by simp
    qed
    from "1.prems" show ?thesis
      unfolding Cons scanstring.simps
      by (auto split: if_splits list.splits option.splits dest!: sub)
  qed
qed

text \<open>
  \<open>scan_once\<close> reads one value at the start of the text; \<open>parse_object\<close> and \<open>parse_array\<close>
  are the loops over the members of an object and the elements of an array, entered after
  the opening bracket and the white space behind it. Each returns the value and the text
  after it. The test \<open>length rest < length s\<close> in the two loops makes their termination
  evident: a value that was read is at least one character long.
\<close>

function scan_once :: "py_limits \<Rightarrow> nat \<Rightarrow> ustring \<Rightarrow> scan_result"
  and parse_object :: "py_limits \<Rightarrow> nat \<Rightarrow> pydict \<Rightarrow> ustring \<Rightarrow> scan_result"
  and parse_array :: "py_limits \<Rightarrow> nat \<Rightarrow> pyval list \<Rightarrow> ustring \<Rightarrow> scan_result"
where
  "scan_once lims depth s =
     (case s of
        [] \<Rightarrow> Inl StopIteration
      | c # cs \<Rightarrow>
          if c = 34 then
            (case scanstring [] cs of Inl e \<Rightarrow> Inl e | Inr (str, r) \<Rightarrow> Inr (PStr str, r))
          else if c = 123 then
            (if max_depth lims \<le> depth then Inl RecursionError
             else if skip_ws cs \<noteq> [] \<and> hd (skip_ws cs) = 125
               then Inr (PDict [], tl (skip_ws cs))
               else parse_object lims (Suc depth) [] (skip_ws cs))
          else if c = 91 then
            (if max_depth lims \<le> depth then Inl RecursionError
             else if skip_ws cs \<noteq> [] \<and> hd (skip_ws cs) = 93
               then Inr (PList [], tl (skip_ws cs))
               else parse_array lims (Suc depth) [] (skip_ws cs))
          else scan_atom lims s)"
| "parse_object lims depth pairs s =
     (case s of
        [] \<Rightarrow> Inl JSONDecodeError
      | q # s1 \<Rightarrow>
          if q \<noteq> 34 then Inl JSONDecodeError
          else (case scanstring [] s1 of
                  Inl e \<Rightarrow> Inl e
                | Inr (key, s2) \<Rightarrow>
                    (case skip_ws s2 of
                       [] \<Rightarrow> Inl JSONDecodeError
                     | colon # s3 \<Rightarrow>
                         if colon \<noteq> 58 then Inl JSONDecodeError
                         else (case scan_once lims depth (skip_ws s3) of
                                 Inl e \<Rightarrow> Inl e
                               | Inr (val, rest) \<Rightarrow>
                                   if \<not> length rest < length s then Inl JSONDecodeError
                                   else (case skip_ws rest of
                                           [] \<Rightarrow> Inl JSONDecodeError
                                         | d # s5 \<Rightarrow>
                                             if d = 125
                                             then Inr (PDict (dict_set pairs key val), s5)
                                             else if d \<noteq> 44 then Inl JSONDecodeError
                                             else parse_object lims depth
                                                    (dict_set pairs key val) (skip_ws s5))))))"
| "parse_array lims depth elems s =
     (case scan_once lims depth s of
        Inl e \<Rightarrow> Inl e
      | Inr (val, rest) \<Rightarrow>
          if \<not> length rest < length s then Inl JSONDecodeError
          else (case skip_ws rest of
                  [] \<Rightarrow> Inl JSONDecodeError
                | d # s5 \<Rightarrow>
                    if d = 93 then Inr (PList (elems @ [val]), s5)
                    else if d \<noteq> 44 then Inl JSONDecodeError
                    else parse_array lims depth (elems @ [val]) (skip_ws s5)))"
  by pat_completeness auto

termination
  apply (relation "measure (\<lambda>x. case x of Inl (lims, d, s) \<Rightarrow> 2 * length s
      | Inr (Inl (lims, d, acc, s)) \<Rightarrow> 2 * length s
      | Inr (Inr (lims, d, acc, s)) \<Rightarrow> 2 * length s + 1)")
       apply (auto dest!: scanstring_shorter skip_ws_Cons_shorter)
  subgoal for lims depth cs using length_skip_ws[of cs] by linarith
  subgoal for lims depth cs using length_skip_ws[of cs] by linarith
  subgoal for cs s2 s3 using length_skip_ws[of s3] by linarith
  subgoal for lims depth cs s2 s3 v rest s5 using length_skip_ws[of s5] by linarith
  subgoal for lims depth s v rest s5 using length_skip_ws[of s5] by linarith
  done

declare scan_once.simps [simp del] parse_object.simps [simp del] parse_array.simps [simp del]

definition json_loads :: "py_limits \<Rightarrow> ustring \<Rightarrow> py_error + pyval" where
  "json_loads lims s =
     (if s \<noteq> [] \<and> hd s = 65279 then Inl JSONDecodeError
      else (case scan_once lims 0 (skip_ws s) of
              Inl e \<Rightarrow> if e = StopIteration then Inl JSONDecodeError else Inl e
            | Inr (v, rest) \<Rightarrow> if skip_ws rest = [] then Inr v else Inl JSONDecodeError))"

section \<open>\<open>clean_and_parse_json\<close>\<close>

text \<open>
  The function is the same in the text-only and in the audio generator. Its result is
  \<open>Inr None\<close> for the Python \<open>None\<close>, \<open>Inr (Some v)\<close> for a parsed value and \<open>Inl e\<close> when
  the exception \<open>e\<close> leaves the function.
\<close>

text \<open>\<open>try: return json.loads(json_str)\<close> with \<open>except json.JSONDecodeError: return None\<close>.\<close>

definition try_loads :: "py_limits \<Rightarrow> ustring \<Rightarrow> py_error + pyval option" where
  "try_loads lims json_str =
     (case json_loads lims json_str of
        Inl e \<Rightarrow> if e = JSONDecodeError then Inr None else Inl e
      | Inr v \<Rightarrow> Inr (Some v))"

definition clean_and_parse_json :: "py_limits \<Rightarrow> ustring \<Rightarrow> py_error + pyval option" where
  "clean_and_parse_json lims response_content =
     (case (case search_fenced response_content of
              Some m \<Rightarrow> Some m
            | None \<Rightarrow> search_braces response_content) of
        None \<Rightarrow> Inr None
      | Some m \<Rightarrow>
          bind_err (if contains (U ''```json'') (group0 m) then match_group m 1
                    else match_group m 0)
            (try_loads lims))"

(*THEOREMS*)

section \<open>Basic facts\<close>

lemma bind_err_Inr_iff: "bind_err m f = Inr y \<longleftrightarrow> (\<exists>x. m = Inr x \<and> f x = Inr y)"
  by (cases m) (simp_all add: bind_err_def)

lemma U_eq_iff [simp]: "U a = U b \<longleftrightarrow> a = b"
  by (simp add: U_def inj_map_eq_map inj_of_char)

lemma length_U [simp]: "length (U s) = length s"
  by (simp add: U_def)

lemma U_append: "U a @ U b = U (a @ b)"
  by (simp add: U_def)

lemma take_U: "take n (U s) = U (take n s)"
  by (simp add: U_def take_map)

lemma U_Nil_iff [simp]: "U s = [] \<longleftrightarrow> s = []"
  by (simp add: U_def)

lemma expected_role_even: "expected_role j = (if even j then U ''agent'' else U ''user'')"
  by (auto simp: expected_role_def)

lemma agent_neq_user: "U ''agent'' \<noteq> U ''user''"
  by (simp add: U_def)

lemma py_getitem_neg:
  "0 < k \<Longrightarrow> k \<le> length xs \<Longrightarrow> py_getitem xs (- int k) = Inr (xs ! (length xs - k))"
  by (auto simp: py_getitem_def nat_diff_distrib' intro!: arg_cong[where f="(!) xs"])

section \<open>What the validators accept\<close>

lemma text_turn_loop_roles:
  "text_turn_loop i h = Inr True \<Longrightarrow> j < length h \<Longrightarrow>
   role_of (h ! j) = Inr (PStr (expected_role (i + j)))"
proof (induction h arbitrary: i j)
  case Nil
  then show ?case by simp
next
  case (Cons t rest)
  from Cons.prems(1) have r: "role_of t = Inr (PStr (expected_role i))"
    and loop: "text_turn_loop (Suc i) rest = Inr True"
    by (auto simp: bind_err_Inr_iff role_of_def split: if_splits)
  show ?case
  proof (cases j)
    case 0
    with r show ?thesis by simp
  next
    case (Suc k)
    with Cons.prems(2) have "k < length rest" by simp
    from Cons.IH[OF loop this] Suc show ?thesis by simp
  qed
qed

lemma audio_turn_loop_roles:
  "audio_turn_loop fs i h = Inr True \<Longrightarrow> j < length h \<Longrightarrow>
   role_of (h ! j) = Inr (PStr (expected_role (i + j)))"
proof (induction h arbitrary: i j)
  case Nil
  then show ?case by simp
next
  case (Cons t rest)
  from Cons.prems(1) have r: "role_of t = Inr (PStr (expected_role i))"
    and loop: "audio_turn_loop fs (Suc i) rest = Inr True"
    by (auto simp: bind_err_Inr_iff role_of_def split: if_splits pyval.splits)
  show ?case
  proof (cases j)
    case 0
    with r show ?thesis by simp
  next
    case (Suc k)
    with Cons.prems(2) have "k < length rest" by simp
    from Cons.IH[OF loop this] Suc show ?thesis by simp
  qed
qed

lemma check_ending_True:
  assumes "check_ending h = Inr True" and "2 \<le> length h"
  shows "role_of (h ! (length h - 2)) = Inr (PStr (U ''agent''))"
    and "intent_of (h ! (length h - 2)) = Inr (PStr (U ''closing''))"
    and "role_of (h ! (length h - 1)) = Inr (PStr (U ''user''))"
    and "intent_of (h ! (length h - 1)) = Inr (PStr (U ''thanks''))
         \<or> intent_of (h ! (length h - 1)) = Inr (PStr (U ''confirmation''))"
proof -
  have g2: "py_getitem h (- 2) = Inr (h ! (length h - 2))"
    using py_getitem_neg[of 2 h] assms(2) by simp
  have g1: "py_getitem h (- 1) = Inr (h ! (length h - 1))"
    using py_getitem_neg[of 1 h] assms(2) by simp
  from assms(1) have c: "closing_missing h = Inr False" and t: "thanks_missing h = Inr False"
    by (auto simp: check_ending_def bind_err_Inr_iff split: if_splits)
  from c show "role_of (h ! (length h - 2)) = Inr (PStr (U ''agent''))"
    and "intent_of (h ! (length h - 2)) = Inr (PStr (U ''closing''))"
    by (auto simp: closing_missing_def g2 bind_err_Inr_iff role_of_def intent_of_def
        split: if_splits)
  from t show "role_of (h ! (length h - 1)) = Inr (PStr (U ''user''))"
    and "intent_of (h ! (length h - 1)) = Inr (PStr (U ''thanks''))
         \<or> intent_of (h ! (length h - 1)) = Inr (PStr (U ''confirmation''))"
    by (auto simp: thanks_missing_def g1 bind_err_Inr_iff role_of_def intent_of_def
        split: if_splits)
qed

text \<open>
  Evenness is never tested by the code: it follows from the alternation of the roles and
  the user role of the last turn.
\<close>

lemma accepted_well_formed:
  assumes len: "TURNS_PER_DIALOG_MIN \<le> length h" "length h \<le> TURNS_PER_DIALOG_MAX"
    and roles: "\<And>j. j < length h \<Longrightarrow> role_of (h ! j) = Inr (PStr (expected_role j))"
    and ending: "check_ending h = Inr True"
  shows "well_formed_conversation h"
proof -
  from len have l2: "2 \<le> length h" by (simp add: TURNS_PER_DIALOG_MIN_def)
  note e = check_ending_True[OF ending l2]
  have alt: "roles_alternate h"
    using roles by (simp add: roles_alternate_def expected_role_even)
  have "length h - 1 < length h" using l2 by simp
  from roles[OF this] e(3) have "expected_role (length h - 1) = U ''user''" by simp
  then have "odd (length h - 1)"
    using agent_neq_user by (auto simp: expected_role_even split: if_splits)
  with l2 have ev: "even (length h)" by (cases "length h") auto
  show ?thesis
    unfolding well_formed_conversation_def using alt ev len e by blast
qed

lemmas validator_eval =
  TURNS_PER_DIALOG_MIN_def TURNS_PER_DIALOG_MAX_def bind_err_def dict_item_def dict_get_def
  dict_contains_def expected_role_def check_ending_def closing_missing_def thanks_missing_def
  py_getitem_def mk_turn_def mk_audio_turn_def sample_text_def

lemma six_turns_accepted:
  "validate_text_conversation six_turns 1 (U ''billing_dispute'') = Inr True"
  by (simp add: validate_text_conversation_def six_turns_def validator_eval)

lemma six_audio_turns_accepted:
  "validate_conversation_with_audio (\<lambda>p. True) six_audio_turns 1 (U ''billing_dispute'')
   = Inr True"
  by (simp add: validate_conversation_with_audio_def six_audio_turns_def validator_eval)

text \<open>
  C1. Every turn list that the text-only validator or the audio-enabled validator accepts
  (returns True, with TURNS_PER_DIALOG_MIN = 6 and TURNS_PER_DIALOG_MAX = 16) has roles that
  alternate starting with agent, an even length within the bounds, an agent turn with
  intent "closing" at position -2 and a user turn with intent "thanks" or "confirmation" at
  position -1.
\<close>

theorem validators_accept_only_well_formed:
  assumes "validate_text_conversation history conv_id scenario_name = Inr True
           \<or> validate_conversation_with_audio path_exists history conv_id scenario_name
             = Inr True"
  shows "well_formed_conversation history"
  using assms
proof
  assume "validate_text_conversation history conv_id scenario_name = Inr True"
  then have len: "TURNS_PER_DIALOG_MIN \<le> length history"
      "length history \<le> TURNS_PER_DIALOG_MAX"
    and loop: "text_turn_loop 0 history = Inr True"
    and ending: "check_ending history = Inr True"
    by (auto simp: validate_text_conversation_def bind_err_Inr_iff split: if_splits)
  show ?thesis
    using accepted_well_formed[OF len _ ending] text_turn_loop_roles[OF loop] by simp
next
  assume "validate_conversation_with_audio path_exists history conv_id scenario_name = Inr True"
  then have len: "TURNS_PER_DIALOG_MIN \<le> length history"
      "length history \<le> TURNS_PER_DIALOG_MAX"
    and loop: "audio_turn_loop path_exists 0 history = Inr True"
    and ending: "check_ending history = Inr True"
    by (auto simp: validate_conversation_with_audio_def bind_err_Inr_iff split: if_splits)
  show ?thesis
    using accepted_well_formed[OF len _ ending] audio_turn_loop_roles[OF loop] by simp
qed

theorem validators_accept_only_well_formed_witness:
  "validate_text_conversation six_turns 1 (U ''billing_dispute'') = Inr True
   \<and> well_formed_conversation six_turns
   \<and> validate_conversation_with_audio (\<lambda>p. True) six_audio_turns 1 (U ''billing_dispute'')
     = Inr True
   \<and> well_formed_conversation six_audio_turns"
proof -
  note t = six_turns_accepted and a = six_audio_turns_accepted
  show ?thesis
    using t a
      validators_accept_only_well_formed[of six_turns 1 "U ''billing_dispute''" "\<lambda>p. True"]
      validators_accept_only_well_formed[of six_audio_turns 1 "U ''billing_dispute''"
        "\<lambda>p. True"]
    by blast
qed

text \<open>
  C8, as stated: the four-turn conversation agent/greeting, user/complaint, agent/closing,
  user/thanks is accepted. It is not: its roles alternate, its transcripts are within the
  bounds and its ending is the required one, but 4 is below TURNS_PER_DIALOG_MIN = 6 and the
  turn-count check returns False.
\<close>

theorem four_turns_rejected:
  "text_turn_loop 0 four_turns = Inr True
   \<and> check_ending four_turns = Inr True
   \<and> validate_text_conversation four_turns 1 (U ''billing_dispute'') = Inr False"
  by (simp add: validate_text_conversation_def four_turns_def validator_eval)

text \<open>
  C8, amended: under the repository's configuration every conversation of exactly 4 turns
  is rejected by the validator, whatever its roles, intents and transcripts, because the
  turn-count check comes first and 4 < TURNS_PER_DIALOG_MIN.
\<close>

theorem four_turn_conversation_rejected:
  assumes "length history = 4"
  shows "validate_text_conversation history conv_id scenario_name = Inr False"
  using assms by (simp add: validate_text_conversation_def TURNS_PER_DIALOG_MIN_def)

theorem four_turn_conversation_rejected_witness:
  "length four_turns = 4
   \<and> validate_text_conversation four_turns 1 (U ''billing_dispute'') = Inr False"
proof -
  have l: "length four_turns = 4" by (simp add: four_turns_def)
  from l four_turn_conversation_rejected[OF l, of 1 "U ''billing_dispute''"]
  show ?thesis by simp
qed

section \<open>Determinism of the validators\<close>

lemma audio_turn_loop_cong:
  assumes "\<forall>t \<in> set h. \<forall>p. dict_get t (U ''audio_filepath'') (PStr []) = PStr p
             \<longrightarrow> fs1 p = fs2 p"
  shows "audio_turn_loop fs1 i h = audio_turn_loop fs2 i h"
  using assms
proof (induction h arbitrary: i)
  case Nil
  show ?case by simp
next
  case (Cons t rest)
  then have ih: "\<And>k. audio_turn_loop fs1 k rest = audio_turn_loop fs2 k rest"
    and here: "\<And>p. dict_get t (U ''audio_filepath'') (PStr []) = PStr p \<Longrightarrow> fs1 p = fs2 p"
    by simp_all
  show ?case
  proof (cases "dict_get t (U ''audio_filepath'') (PStr [])")
    case (PStr p)
    with here have "fs1 p = fs2 p" by simp
    with PStr show ?thesis by (simp add: ih cong: if_cong)
  qed (simp_all cong: if_cong)
qed

text \<open>
  C7, as stated: both validators are functions of the turn list alone. The audio-enabled
  validator is not: on one and the same history it returns True when the audio files exist
  and False when they do not.
\<close>

theorem audio_validator_depends_on_files:
  "validate_conversation_with_audio (\<lambda>p. True) six_audio_turns 1 (U ''billing_dispute'')
     = Inr True
   \<and> validate_conversation_with_audio (\<lambda>p. False) six_audio_turns 1 (U ''billing_dispute'')
     = Inr False"
proof -
  have "validate_conversation_with_audio (\<lambda>p. False) six_audio_turns 1 (U ''billing_dispute'')
     = Inr False"
    by (simp add: validate_conversation_with_audio_def six_audio_turns_def validator_eval)
  with six_audio_turns_accepted show ?thesis by simp
qed

text \<open>
  With the effects in the model, a value that a validator returns is the value of the
  validator without effects; the effects can only replace the return by an exception.
\<close>

lemma print_and_return_Inr: "print_and_return w d r = Inr b \<Longrightarrow> b = r"
  by (simp add: print_and_return_def split: option.splits)

lemma text_turn_loop_io_value:
  "text_turn_loop_io w c i h = Inr b \<Longrightarrow> text_turn_loop i h = Inr b"
proof (induction h arbitrary: i)
  case Nil
  then show ?case by simp
next
  case (Cons t rest)
  from Cons.prems show ?case
    by (auto simp: bind_err_Inr_iff split: if_splits dest: print_and_return_Inr Cons.IH)
qed

lemma check_ending_io_value:
  assumes "check_ending_io w c passed h = Inr b"
  shows "check_ending h = Inr b"
proof (cases "closing_missing h")
  case (Inl e)
  with assms show ?thesis by (simp add: check_ending_io_def bind_err_def)
next
  case cm: (Inr closing)
  show ?thesis
  proof (cases closing)
    case True
    with assms cm have "print_and_return w (MissingAgentClosing c) False = Inr b"
      by (simp add: check_ending_io_def bind_err_def)
    then have "b = False" by (rule print_and_return_Inr)
    with True cm show ?thesis by (simp add: check_ending_def bind_err_def)
  next
    case no_closing: False
    show ?thesis
    proof (cases "thanks_missing h")
      case (Inl e)
      with assms cm no_closing show ?thesis by (simp add: check_ending_io_def bind_err_def)
    next
      case tm: (Inr thanks)
      from assms cm no_closing tm
      have "print_and_return w (if thanks then MissingUserThanks c else passed) (\<not> thanks)
            = Inr b"
        by (cases thanks) (simp_all add: check_ending_io_def bind_err_def)
      then have "b = (\<not> thanks)" by (rule print_and_return_Inr)
      with cm no_closing tm show ?thesis by (simp add: check_ending_def bind_err_def)
    qed
  qed
qed

lemma validate_text_io_value:
  assumes "validate_text_conversation_io w h c s = Inr b"
  shows "validate_text_conversation h c' s' = Inr b"
proof (cases "TURNS_PER_DIALOG_MIN \<le> length h \<and> length h \<le> TURNS_PER_DIALOG_MAX")
  case False
  with assms show ?thesis
    by (auto simp: validate_text_conversation_io_def validate_text_conversation_def
        dest: print_and_return_Inr)
next
  case True
  with assms obtain ok where loop: "text_turn_loop_io w c 0 h = Inr ok"
    and rest: "(if \<not> ok then Inr False else check_ending_io w c (TextValidationPassed c) h) = Inr b"
    by (auto simp: validate_text_conversation_io_def bind_err_Inr_iff)
  from text_turn_loop_io_value[OF loop] have pure: "text_turn_loop 0 h = Inr ok" .
  show ?thesis
  proof (cases ok)
    case True
    with rest have "check_ending h = Inr b" by (auto dest: check_ending_io_value)
    with True pure \<open>TURNS_PER_DIALOG_MIN \<le> length h \<and> length h \<le> TURNS_PER_DIALOG_MAX\<close>
    show ?thesis by (simp add: validate_text_conversation_def bind_err_def)
  next
    case False
    with rest have "b = False" by simp
    with False pure \<open>TURNS_PER_DIALOG_MIN \<le> length h \<and> length h \<le> TURNS_PER_DIALOG_MAX\<close>
    show ?thesis by (simp add: validate_text_conversation_def bind_err_def)
  qed
qed

lemma audio_turn_loop_io_value:
  "audio_turn_loop_io w c i h = Inr b \<Longrightarrow> audio_turn_loop (files_of w) i h = Inr b"
proof (induction h arbitrary: i)
  case Nil
  then show ?case by simp
next
  case (Cons t rest)
  let ?dur = "if \<not> dict_contains t (U ''audio_duration'') then Inr True
              else bind_err (dict_item t (U ''audio_duration'')) py_le_zero"
  let ?len = "py_len (dict_get t (U ''transcript'') (PStr []))"
  from Cons.prems obtain role where role: "dict_item t (U ''role'') = Inr role"
    by (cases "dict_item t (U ''role'')") (simp_all add: bind_err_def)
  show ?case
  proof (cases "role \<noteq> PStr (expected_role i)")
    case True
    with Cons.prems role have "b = False"
      by (auto simp: bind_err_def dest: print_and_return_Inr)
    with True role show ?thesis by (simp add: bind_err_def)
  next
    case role_ok: False
    from Cons.prems role role_ok obtain p where p: "dict_get t (U ''audio_filepath'') (PStr []) = PStr p"
      by (cases "dict_get t (U ''audio_filepath'') (PStr [])") (simp_all add: bind_err_def)
    from Cons.prems role role_ok p obtain found where found: "exists_outcome w p = Inr found"
      by (cases "exists_outcome w p") (simp_all add: bind_err_def)
    show ?thesis
    proof (cases found)
      case False
      with Cons.prems role role_ok p found have "b = False"
        by (auto simp: bind_err_def dest: print_and_return_Inr)
      with False role role_ok p found show ?thesis by (simp add: bind_err_def files_of_def)
    next
      case is_found: True
      from Cons.prems role role_ok p found is_found obtain bad where bad: "?dur = Inr bad"
        by (cases ?dur) (simp_all add: bind_err_def)
      show ?thesis
      proof (cases bad)
        case True
        with Cons.prems role role_ok p found is_found bad have "b = False"
          by (auto simp: bind_err_def dest: print_and_return_Inr)
        with True role role_ok p found is_found bad show ?thesis
          by (simp add: bind_err_def files_of_def)
      next
        case dur_ok: False
        from Cons.prems role role_ok p found is_found bad dur_ok obtain n where n: "?len = Inr n"
          by (cases ?len) (simp_all add: bind_err_def)
        show ?thesis
        proof (cases "n < 20 \<or> n > 200")
          case True
          with Cons.prems role role_ok p found is_found bad dur_ok n have "b = False"
            by (auto simp: bind_err_def dest: print_and_return_Inr)
          with True role role_ok p found is_found bad dur_ok n show ?thesis
            by (simp add: bind_err_def files_of_def)
        next
          case False
          with Cons.prems role role_ok p found is_found bad dur_ok n
          have "audio_turn_loop_io w c (Suc i) rest = Inr b"
            by (simp add: bind_err_def)
          from Cons.IH[OF this] False role role_ok p found is_found bad dur_ok n
          show ?thesis by (simp add: bind_err_def files_of_def)
        qed
      qed
    qed
  qed
qed

lemma validate_audio_io_value:
  assumes "validate_conversation_with_audio_io w h c s = Inr b"
  shows "validate_conversation_with_audio (files_of w) h c' s' = Inr b"
proof (cases "TURNS_PER_DIALOG_MIN \<le> length h \<and> length h \<le> TURNS_PER_DIALOG_MAX")
  case False
  with assms show ?thesis
    by (auto simp: validate_conversation_with_audio_io_def validate_conversation_with_audio_def
        dest: print_and_return_Inr)
next
  case True
  with assms obtain ok where loop: "audio_turn_loop_io w c 0 h = Inr ok"
    and rest: "(if \<not> ok then Inr False else check_ending_io w c (AudioValidationPassed c) h) = Inr b"
    by (auto simp: validate_conversation_with_audio_io_def bind_err_Inr_iff)
  from audio_turn_loop_io_value[OF loop] have pure: "audio_turn_loop (files_of w) 0 h = Inr ok" .
  show ?thesis
  proof (cases ok)
    case True
    with rest have "check_ending h = Inr b" by (auto dest: check_ending_io_value)
    with True pure \<open>TURNS_PER_DIALOG_MIN \<le> length h \<and> length h \<le> TURNS_PER_DIALOG_MAX\<close>
    show ?thesis by (simp add: validate_conversation_with_audio_def bind_err_def)
  next
    case False
    with rest have "b = False" by simp
    with False pure \<open>TURNS_PER_DIALOG_MIN \<le> length h \<and> length h \<le> TURNS_PER_DIALOG_MAX\<close>
    show ?thesis by (simp add: validate_conversation_with_audio_def bind_err_def)
  qed
qed

lemma same_audio_files_pure:
  assumes "same_audio_files w1 w2 h"
  shows "validate_conversation_with_audio (files_of w1) h c s
         = validate_conversation_with_audio (files_of w2) h c s"
proof -
  from assms have "\<forall>t \<in> set h. \<forall>p. dict_get t (U ''audio_filepath'') (PStr []) = PStr p
             \<longrightarrow> files_of w1 p = files_of w2 p"
    by (simp add: same_audio_files_def files_of_def)
  from audio_turn_loop_cong[OF this] show ?thesis
    by (simp add: validate_conversation_with_audio_def)
qed

lemmas io_eval = validate_text_conversation_io_def validate_conversation_with_audio_io_def
  check_ending_io_def print_and_return_def quiet_world_def closed_stdout_world_def
  selective_world_def

lemma text_io_quiet:
  "validate_text_conversation_io quiet_world six_audio_turns 1 (U ''billing_dispute'') = Inr True"
  by (simp add: six_audio_turns_def io_eval validator_eval)

lemma text_io_selective:
  "validate_text_conversation_io selective_world six_audio_turns 2 (U ''package_change'') = Inr True"
  by (simp add: six_audio_turns_def io_eval validator_eval)

lemma audio_io_quiet:
  "validate_conversation_with_audio_io quiet_world six_audio_turns 1 (U ''billing_dispute'') = Inr True"
  by (simp add: six_audio_turns_def io_eval validator_eval)

lemma audio_io_selective:
  "validate_conversation_with_audio_io selective_world six_audio_turns 2 (U ''package_change'') = Inr True"
  by (simp add: six_audio_turns_def io_eval validator_eval)

lemma same_files_example: "same_audio_files quiet_world selective_world six_audio_turns"
  by (auto simp: same_audio_files_def six_audio_turns_def mk_audio_turn_def dict_get_def
      quiet_world_def selective_world_def)

text \<open>
  The outcome of the text-only validator also depends on the world: with a closed
  standard output the accepted conversation of six turns raises instead of returning.
\<close>

lemma text_io_closed_stdout:
  "validate_text_conversation_io closed_stdout_world six_turns 1 (U ''billing_dispute'')
   = Inl (ExternalError (U ''BrokenPipeError''))"
  by (simp add: six_turns_def io_eval validator_eval)

text \<open>
  C7, amended: neither validator is independent of the state outside the program, since
  both print before they return and the audio-enabled validator asks the file system. What
  holds is this. Whenever two calls of the text-only validator on the same history both
  return, in any states of the world and with any other arguments, they return the same
  boolean. Whenever two calls of the audio-enabled validator on the same history both
  return, they return the same boolean, provided the file system answers alike for the
  audio paths of the turns in the two states.
\<close>

theorem returned_verdicts_agree:
  "(validate_text_conversation_io w1 history c1 s1 = Inr b1
      \<and> validate_text_conversation_io w2 history c2 s2 = Inr b2 \<longrightarrow> b1 = b2)
   \<and> (same_audio_files w1 w2 history
      \<and> validate_conversation_with_audio_io w1 history c1 s1 = Inr b1
      \<and> validate_conversation_with_audio_io w2 history c2 s2 = Inr b2 \<longrightarrow> b1 = b2)"
proof (intro conjI impI)
  assume "validate_text_conversation_io w1 history c1 s1 = Inr b1
      \<and> validate_text_conversation_io w2 history c2 s2 = Inr b2"
  then have "validate_text_conversation history 0 [] = Inr b1"
    and "validate_text_conversation history 0 [] = Inr b2"
    by (auto dest: validate_text_io_value)
  then show "b1 = b2" by simp
next
  assume a: "same_audio_files w1 w2 history
      \<and> validate_conversation_with_audio_io w1 history c1 s1 = Inr b1
      \<and> validate_conversation_with_audio_io w2 history c2 s2 = Inr b2"
  then have "validate_conversation_with_audio (files_of w1) history 0 [] = Inr b1"
    and "validate_conversation_with_audio (files_of w2) history 0 [] = Inr b2"
    by (auto dest: validate_audio_io_value)
  with same_audio_files_pure[of w1 w2 history 0 "[]"] a show "b1 = b2" by simp
qed

theorem returned_verdicts_agree_witness:
  "validate_text_conversation_io quiet_world six_audio_turns 1 (U ''billing_dispute'') = Inr True
   \<and> validate_text_conversation_io selective_world six_audio_turns 2 (U ''package_change'')
     = Inr True
   \<and> same_audio_files quiet_world selective_world six_audio_turns
   \<and> validate_conversation_with_audio_io quiet_world six_audio_turns 1 (U ''billing_dispute'')
     = Inr True
   \<and> validate_conversation_with_audio_io selective_world six_audio_turns 2
       (U ''package_change'') = Inr True"
  using returned_verdicts_agree[of quiet_world six_audio_turns 1 "U ''billing_dispute''" True
      selective_world 2 "U ''package_change''" True]
    text_io_quiet text_io_selective same_files_example audio_io_quiet audio_io_selective
  by blast

section \<open>Gender inference, voices and speaker binding\<close>

lemma voices_agent_male:
  "voices_with_prefix (U ''agent_male_'')
   = [U ''agent_male_001'', U ''agent_male_002'', U ''agent_male_003'']"
  by (simp add: voices_with_prefix_def ENHANCED_VOICE_CONFIGS_def startswith_def take_U)

lemma voices_agent_female:
  "voices_with_prefix (U ''agent_female_'')
   = [U ''agent_female_001'', U ''agent_female_002'', U ''agent_female_003'']"
  by (simp add: voices_with_prefix_def ENHANCED_VOICE_CONFIGS_def startswith_def take_U)

lemma voices_user_male:
  "voices_with_prefix (U ''user_male_'')
   = [U ''user_male_001'', U ''user_male_002'', U ''user_male_003'']"
  by (simp add: voices_with_prefix_def ENHANCED_VOICE_CONFIGS_def startswith_def take_U)

lemma voices_user_female:
  "voices_with_prefix (U ''user_female_'')
   = [U ''user_female_001'', U ''user_female_002'', U ''user_female_003'']"
  by (simp add: voices_with_prefix_def ENHANCED_VOICE_CONFIGS_def startswith_def take_U)

lemma random_choice_nonempty:
  "xs \<noteq> [] \<Longrightarrow> \<exists>x. random_choice xs g = Inr (x, rng_tail g) \<and> x \<in> set xs"
  by (simp add: random_choice_def)

lemma gender_cases:
  "get_gender_from_name name = U ''male'' \<or> get_gender_from_name name = U ''female''"
  by (simp add: get_gender_from_name_def)

lemma endswith_single: "endswith name [c] \<longleftrightarrow> name \<noteq> [] \<and> last name = c"
proof (cases name rule: rev_cases)
  case Nil
  then show ?thesis by (simp add: endswith_def)
next
  case (snoc ys y)
  then show ?thesis by (auto simp: endswith_def)
qed

lemma female_suffix_iff:
  "list_ex (endswith name) female_suffixes
   \<longleftrightarrow> name \<noteq> [] \<and> last name \<in> {101, 97, 351, 252, 246}"
  by (auto simp: female_suffixes_def U_def endswith_single)

text \<open>
  C10. Gender inference is total: for every name the result is "male" or "female", by
  membership in the two name sets first and otherwise by the last letter (e, a, s-cedilla,
  u-umlaut, o-umlaut give "female", everything else "male"). The agent's voice is therefore
  always drawn from a non-empty pool of voices of that gender, and the draw never fails.
\<close>

theorem gender_total_and_agent_voice_found:
  "get_gender_from_name name \<in> {U ''male'', U ''female''}
   \<and> get_gender_from_name name =
       (if name \<in> set TURKISH_MALE_NAMES then U ''male''
        else if name \<in> set TURKISH_FEMALE_NAMES then U ''female''
        else if name \<noteq> [] \<and> last name \<in> {101, 97, 351, 252, 246} then U ''female''
        else U ''male'')
   \<and> voices_with_prefix (U ''agent_'' @ get_gender_from_name name @ U ''_'') \<noteq> []
   \<and> (\<exists>voice. get_voice_for_agent name g = Inr (voice, rng_tail g)
        \<and> voice \<in> set (voices_with_prefix (U ''agent_'' @ get_gender_from_name name @ U ''_'')))"
proof -
  have m: "U ''agent_'' @ U ''male'' @ U ''_'' = U ''agent_male_''"
    and f: "U ''agent_'' @ U ''female'' @ U ''_'' = U ''agent_female_''"
    and mf: "U ''female'' \<noteq> U ''male''"
    by (simp_all add: U_def)
  have char: "get_gender_from_name name =
       (if name \<in> set TURKISH_MALE_NAMES then U ''male''
        else if name \<in> set TURKISH_FEMALE_NAMES then U ''female''
        else if name \<noteq> [] \<and> last name \<in> {101, 97, 351, 252, 246} then U ''female''
        else U ''male'')"
    unfolding get_gender_from_name_def female_suffix_iff ..
  from gender_cases[of name] show ?thesis
  proof
    assume g: "get_gender_from_name name = U ''male''"
    have ne: "voices_with_prefix (U ''agent_male_'') \<noteq> []" by (simp add: voices_agent_male)
    from random_choice_nonempty[OF ne, of g] char show ?thesis
      unfolding get_voice_for_agent_def g m by (simp add: ne)
  next
    assume g: "get_gender_from_name name = U ''female''"
    have ne: "voices_with_prefix (U ''agent_female_'') \<noteq> []" by (simp add: voices_agent_female)
    from random_choice_nonempty[OF ne, of g] char show ?thesis
      unfolding get_voice_for_agent_def g f using mf by (simp add: ne)
  qed
qed

lemma bind_many_keeps:
  assumes keep: "\<And>sm c' n g q sm' g'. conversation_speakers sm c = Some p \<Longrightarrow>
             assign sm c' n g = Inr (q, sm', g') \<Longrightarrow> conversation_speakers sm' c = Some p"
  shows "conversation_speakers sm c = Some p \<Longrightarrow> bind_many assign sm calls g = Inr (sm2, g2)
         \<Longrightarrow> conversation_speakers sm2 c = Some p"
proof (induction calls arbitrary: sm g)
  case Nil
  then show ?case by simp
next
  case (Cons call calls)
  obtain c' n where call: "call = (c', n)" by (cases call)
  from Cons.prems(2) obtain q sm' g' where
    step: "assign sm c' n g = Inr (q, sm', g')" and rest: "bind_many assign sm' calls g' = Inr (sm2, g2)"
    by (auto simp: call bind_err_Inr_iff)
  from keep[OF Cons.prems(1) step] have "conversation_speakers sm' c = Some p" .
  from Cons.IH[OF this rest] show ?case .
qed

lemma stable_from_cache:
  assumes hit: "\<And>sm c n g p. conversation_speakers sm c = Some p \<Longrightarrow> assign sm c n g = Inr (p, sm, g)"
    and store: "\<And>sm c n g p sm1 g1. assign sm c n g = Inr (p, sm1, g1) \<Longrightarrow> conversation_speakers sm1 c = Some p"
    and keep: "\<And>sm c c' n g p q sm' g'. conversation_speakers sm c = Some p \<Longrightarrow>
             assign sm c' n g = Inr (q, sm', g') \<Longrightarrow> conversation_speakers sm' c = Some p"
  shows "referentially_stable assign"
  unfolding referentially_stable_def
proof (intro allI impI)
  fix sm c n g p sm1 g1 calls ga sm2 g2 n' g'
  assume a: "assign sm c n g = Inr (p, sm1, g1)" and b: "bind_many assign sm1 calls ga = Inr (sm2, g2)"
  from store[OF a] have "conversation_speakers sm1 c = Some p" .
  then have "conversation_speakers sm2 c = Some p"
    using b by (rule bind_many_keeps[rotated]) (rule keep)
  then show "assign sm2 c n' g' = Inr (p, sm2, g')" by (rule hit)
qed

lemma assign_speakers_hit:
  "conversation_speakers sm c = Some p \<Longrightarrow> assign_speakers sm c n g = Inr (p, sm, g)"
  by (simp add: assign_speakers_def)

lemma assign_speakers_store:
  "assign_speakers sm c n g = Inr (p, sm1, g1) \<Longrightarrow> conversation_speakers sm1 c = Some p"
  by (auto simp: assign_speakers_def bind_err_Inr_iff remember_speakers_def split: option.splits)

lemma assign_speakers_keep:
  "conversation_speakers sm c = Some p \<Longrightarrow> assign_speakers sm c' n g = Inr (q, sm', g')
   \<Longrightarrow> conversation_speakers sm' c = Some p"
  by (auto simp: assign_speakers_def bind_err_Inr_iff remember_speakers_def split: option.splits)

lemma text_assign_speakers_hit:
  "conversation_speakers sm c = Some p \<Longrightarrow> text_assign_speakers sm c n g = Inr (p, sm, g)"
  by (simp add: text_assign_speakers_def)

lemma text_assign_speakers_store:
  "text_assign_speakers sm c n g = Inr (p, sm1, g1) \<Longrightarrow> conversation_speakers sm1 c = Some p"
  by (auto simp: text_assign_speakers_def bind_err_Inr_iff remember_speakers_def split: option.splits)

lemma text_assign_speakers_keep:
  "conversation_speakers sm c = Some p \<Longrightarrow> text_assign_speakers sm c' n g = Inr (q, sm', g')
   \<Longrightarrow> conversation_speakers sm' c = Some p"
  by (auto simp: text_assign_speakers_def bind_err_Inr_iff remember_speakers_def split: option.splits)

text \<open>
  C5. For both speaker managers: once a call for a conversation id has returned a voice
  pair, every later call for the same id returns exactly that pair, whatever persona name
  is passed and whatever calls were made in between; the cached pair is returned and the
  persona argument is ignored.
\<close>

theorem speaker_binding_stable:
  "referentially_stable assign_speakers \<and> referentially_stable text_assign_speakers"
proof
  show "referentially_stable assign_speakers"
    by (rule stable_from_cache)
      (erule assign_speakers_hit, erule assign_speakers_store, erule (1) assign_speakers_keep)
  show "referentially_stable text_assign_speakers"
    by (rule stable_from_cache)
      (erule text_assign_speakers_hit, erule text_assign_speakers_store,
        erule (1) text_assign_speakers_keep)
qed

lemma config_gender_values:
  "config_gender (U ''agent_male_001'') = Inr (PStr (U ''male''))"
  "config_gender (U ''agent_male_002'') = Inr (PStr (U ''male''))"
  "config_gender (U ''agent_male_003'') = Inr (PStr (U ''male''))"
  "config_gender (U ''agent_female_001'') = Inr (PStr (U ''female''))"
  "config_gender (U ''agent_female_002'') = Inr (PStr (U ''female''))"
  "config_gender (U ''agent_female_003'') = Inr (PStr (U ''female''))"
  "config_gender (U ''user_male_001'') = Inr (PStr (U ''male''))"
  "config_gender (U ''user_male_002'') = Inr (PStr (U ''male''))"
  "config_gender (U ''user_male_003'') = Inr (PStr (U ''male''))"
  "config_gender (U ''user_female_001'') = Inr (PStr (U ''female''))"
  "config_gender (U ''user_female_002'') = Inr (PStr (U ''female''))"
  "config_gender (U ''user_female_003'') = Inr (PStr (U ''female''))"
  by (simp_all add: config_gender_def ENHANCED_VOICE_CONFIGS_def voice_entry_def dict_item_def)

lemma config_gender_agent_male:
  "v \<in> set (voices_with_prefix (U ''agent_male_'')) \<Longrightarrow> \<exists>gen. config_gender v = Inr gen"
  unfolding voices_agent_male using config_gender_values by auto

lemma config_gender_agent_female:
  "v \<in> set (voices_with_prefix (U ''agent_female_'')) \<Longrightarrow> \<exists>gen. config_gender v = Inr gen"
  unfolding voices_agent_female using config_gender_values by auto

lemma config_gender_user_male:
  "v \<in> set (voices_with_prefix (U ''user_male_'')) \<Longrightarrow> \<exists>gen. config_gender v = Inr gen"
  unfolding voices_user_male using config_gender_values by auto

lemma config_gender_user_female:
  "v \<in> set (voices_with_prefix (U ''user_female_'')) \<Longrightarrow> \<exists>gen. config_gender v = Inr gen"
  unfolding voices_user_female using config_gender_values by auto

lemma get_voice_for_agent_total:
  "\<exists>v. get_voice_for_agent name g = Inr (v, rng_tail g) \<and> (\<exists>gen. config_gender v = Inr gen)"
proof (cases "get_gender_from_name name = U ''male''")
  case True
  have "voices_with_prefix (U ''agent_male_'') \<noteq> []" by (simp add: voices_agent_male)
  from random_choice_nonempty[OF this, of g] True show ?thesis
    by (auto simp: get_voice_for_agent_def dest: config_gender_agent_male)
next
  case False
  have "voices_with_prefix (U ''agent_female_'') \<noteq> []" by (simp add: voices_agent_female)
  from random_choice_nonempty[OF this, of g] False show ?thesis
    by (auto simp: get_voice_for_agent_def dest: config_gender_agent_female)
qed

lemma get_voice_for_user_total:
  "\<exists>v g'. get_voice_for_user pref g = Inr (v, g') \<and> (\<exists>gen. config_gender v = Inr gen)"
proof -
  have m: "voices_with_prefix (U ''user_male_'') \<noteq> []" by (simp add: voices_user_male)
  have f: "voices_with_prefix (U ''user_female_'') \<noteq> []" by (simp add: voices_user_female)
  obtain p g1 where c: "(case pref of None \<Rightarrow> random_choice [U ''male'', U ''female''] g
        | Some p \<Rightarrow> Inr (p, g)) = Inr (p, g1)"
    by (cases pref) (auto simp: random_choice_def)
  show ?thesis
  proof (cases "p = U ''male''")
    case True
    with random_choice_nonempty[OF m, of g1] c show ?thesis
      by (auto simp: get_voice_for_user_def bind_err_def dest: config_gender_user_male)
  next
    case False
    with random_choice_nonempty[OF f, of g1] c show ?thesis
      by (auto simp: get_voice_for_user_def bind_err_def dest: config_gender_user_female)
  qed
qed

lemma assign_speakers_total: "\<exists>p sm' g'. assign_speakers sm c n g = Inr (p, sm', g')"
proof (cases "conversation_speakers sm c")
  case (Some p)
  then show ?thesis by (simp add: assign_speakers_def)
next
  case None
  obtain av where a: "get_voice_for_agent n g = Inr (av, rng_tail g)"
    and ag: "\<exists>gen. config_gender av = Inr gen"
    using get_voice_for_agent_total by blast
  obtain uv g2 where u: "get_voice_for_user None (rng_tail g) = Inr (uv, g2)"
    and ug: "\<exists>gen. config_gender uv = Inr gen"
    using get_voice_for_user_total by blast
  from None a u ag ug show ?thesis
    by (auto simp: assign_speakers_def bind_err_def)
qed

lemma text_assign_speakers_total: "\<exists>p sm' g'. text_assign_speakers sm c n g = Inr (p, sm', g')"
  by (cases "conversation_speakers sm c")
    (auto simp: text_assign_speakers_def get_speaker_id_for_text_def bind_err_def
      random_choice_def U_def)

lemma bind_many_total:
  assumes "\<And>sm c n g. \<exists>p sm' g'. assign sm c n g = Inr (p, sm', g')"
  shows "\<exists>sm2 g2. bind_many assign sm calls g = Inr (sm2, g2)"
proof (induction calls arbitrary: sm g)
  case Nil
  show ?case by simp
next
  case (Cons call calls)
  obtain c n where call: "call = (c, n)" by (cases call)
  from assms obtain p sm' g' where "assign sm c n g = Inr (p, sm', g')" by blast
  with Cons.IH[of sm' g'] call show ?case by (simp add: bind_err_def)
qed

lemma gender_Ahmet: "get_gender_from_name (U ''Ahmet'') = U ''male''"
  by (simp add: get_gender_from_name_def TURKISH_MALE_NAMES_def U_def)

lemma first_binding:
  "\<exists>sm1 g1. assign_speakers new_speaker_manager 7 (U ''Ahmet'') (\<lambda>n. n)
     = Inr ((U ''agent_male_001'', U ''user_female_003''), sm1, g1)"
  unfolding assign_speakers_def get_voice_for_agent_def get_voice_for_user_def gender_Ahmet
    voices_agent_male voices_user_female voices_user_male
  by (simp add: new_speaker_manager_def random_choice_def bind_err_def rng_tail_def
      config_gender_values)

lemma first_text_binding:
  "\<exists>sm1 g1. text_assign_speakers new_speaker_manager 7 (U ''Ahmet'') (\<lambda>n. n)
     = Inr ((U ''agent_male_007'', U ''user_male_007''), sm1, g1)"
  unfolding text_assign_speakers_def get_speaker_id_for_text_def gender_Ahmet
  by (simp add: new_speaker_manager_def random_choice_def bind_err_def rng_tail_def
      format_0d_def zero_pad_def numeral_2_eq_2 U_def)

theorem speaker_binding_stable_witness:
  "stable_at assign_speakers (U ''agent_male_001'', U ''user_female_003'')
   \<and> stable_at text_assign_speakers (U ''agent_male_007'', U ''user_male_007'')"
proof
  obtain sm1 g1 where a: "assign_speakers new_speaker_manager 7 (U ''Ahmet'') (\<lambda>n. n)
     = Inr ((U ''agent_male_001'', U ''user_female_003''), sm1, g1)"
    using first_binding by blast
  obtain sm2 g2 where b: "bind_many assign_speakers sm1 later_calls g1 = Inr (sm2, g2)"
    using bind_many_total[of assign_speakers, OF assign_speakers_total] by blast
  from speaker_binding_stable have "referentially_stable assign_speakers" ..
  from this[unfolded referentially_stable_def, rule_format, OF a b]
  have "assign_speakers sm2 7 (U ''Zeynep'') g2
        = Inr ((U ''agent_male_001'', U ''user_female_003''), sm2, g2)" .
  with a b show "stable_at assign_speakers (U ''agent_male_001'', U ''user_female_003'')"
    by (simp add: stable_at_def)
next
  obtain sm1 g1 where a: "text_assign_speakers new_speaker_manager 7 (U ''Ahmet'') (\<lambda>n. n)
     = Inr ((U ''agent_male_007'', U ''user_male_007''), sm1, g1)"
    using first_text_binding by blast
  obtain sm2 g2 where b: "bind_many text_assign_speakers sm1 later_calls g1 = Inr (sm2, g2)"
    using bind_many_total[of text_assign_speakers, OF text_assign_speakers_total] by blast
  from speaker_binding_stable have "referentially_stable text_assign_speakers" ..
  from this[unfolded referentially_stable_def, rule_format, OF a b]
  have "text_assign_speakers sm2 7 (U ''Zeynep'') g2
        = Inr ((U ''agent_male_007'', U ''user_male_007''), sm2, g2)" .
  with a b show "stable_at text_assign_speakers (U ''agent_male_007'', U ''user_male_007'')"
    by (simp add: stable_at_def)
qed

section \<open>Extraction of the JSON object from a model response\<close>


lemmas search_eval =
  search_braces_def match_fenced_here_def fence_def py_isspace_def match_group_def

lemma U_Cons: "U (c # cs) = of_char c # U cs"
  by (simp add: U_def)

lemma U_Nil: "U [] = []"
  by (simp add: U_def)






text \<open>
  C3. The claim is that \<open>clean_and_parse_json\<close> never raises. On the text \<open>{```json}\<close> it
  does: the fenced pattern finds nothing, the brace pattern matches the whole text, the
  match contains \<open>```json\<close>, and \<open>match.group(1)\<close> is asked of a match that has no group.
  The \<open>IndexError\<close> is raised outside the \<open>try\<close> block and leaves the function.
\<close>

theorem clean_and_parse_json_raises_IndexError:
  "search_fenced (U ''{```json}'') = None
   \<and> search_braces (U ''{```json}'') = Some \<lparr>group0 = U ''{```json}'', groups = []\<rparr>
   \<and> clean_and_parse_json lims (U ''{```json}'') = Inl IndexError"
  by (simp add: clean_and_parse_json_def search_eval U_Cons U_Nil bind_err_def)










end
